theory Spec2Isabelle
  imports Complex_Main
begin

section \<open>Numbers, signals and small array helpers\<close>

text \<open>
  The detectors of \<^verbatim>\<open>src/utils/strategy.ts\<close> compute on JavaScript numbers. They are
  modelled as real numbers: rounding and overflow are left out, and the places where the
  source can meet a non-finite value (the logarithm of a ratio that is not positive) are
  written out as \<open>None\<close>. A rationale string built from a template is a constructor of
  \<open>razao\<close> that carries the template's arguments, unformatted.
\<close>

datatype sinal = CALL | PUT | HOLD

datatype direcao3 = ALTA | BAIXA | LATERAL

datatype razao =
    DadosInsuficientes
  | VolatilidadeZero
  | DesviosAcima real
  | DesviosAbaixo real
  | ZScoreNormal real
  | ConsecutivosAlta nat real
  | ConsecutivosBaixa nat real
  | SequenciaAltas nat
  | SequenciaBaixas nat
  | ApenasConsecutivos nat
  | SemPadrao
  | SemVariacao
  | PersistenteAltaContinua real real
  | PersistenteBaixaContinua real real
  | AntipersistenteAltaReverte real real
  | AntipersistenteBaixaReverte real real
  | R2Baixo real real
  | ProximoDeMeio real
  | TendenciaAlta real real nat
  | TendenciaBaixa real real nat
  | ForcaAlta real real real nat
  | ForcaBaixa real real real nat
  | NaoAlinhadas real nat
  | NaoPersistente real

text \<open>\<^verbatim>\<open>xs.slice(-n)\<close>: the last \<open>n\<close> elements, the whole array when it is shorter.\<close>

definition slice_last :: "nat \<Rightarrow> 'a list \<Rightarrow> 'a list" where
  "slice_last n xs = drop (length xs - n) xs"

text \<open>The differences \<open>arr[i] - arr[i-1]\<close> for \<open>i = 1, \<dots>, length - 1\<close>, in order.\<close>

fun diffsAdj :: "real list \<Rightarrow> real list" where
  "diffsAdj (x # y # ys) = (y - x) # diffsAdj (y # ys)"
| "diffsAdj _ = []"

text \<open>
  \<^verbatim>\<open>arr.reduce((acc, t, i, arr) => i === 0 ? 0 : acc + (t - arr[i - 1]), 0)\<close>
\<close>

definition somaVariacoes :: "real list \<Rightarrow> real" where
  "somaVariacoes arr = sum_list (diffsAdj arr)"

text \<open>The same reduction over the absolute differences.\<close>

definition somaVariacoesAbs :: "real list \<Rightarrow> real" where
  "somaVariacoesAbs arr = sum_list (map abs (diffsAdj arr))"

section \<open>Strategy 1: mean reversion\<close>

record estrategia_result =
  sinal :: sinal
  confianca :: real
  razao :: razao

record mean_reversion_result = estrategia_result +
  zScore :: real
  media :: real
  desvioPadrao :: real
  velocidade :: real

definition defaultMeanReversion :: mean_reversion_result where
  "defaultMeanReversion =
     \<lparr>sinal = HOLD, confianca = 0, razao = DadosInsuficientes,
      zScore = 0, media = 0, desvioPadrao = 0, velocidade = 0\<rparr>"

definition estrategiaMeanReversion :: "real list \<Rightarrow> mean_reversion_result" where
  "estrategiaMeanReversion ticks =
     (if length ticks < 20 then defaultMeanReversion
      else
        let ultimos20 = slice_last 20 ticks;
            ultimos10 = slice_last 10 ticks;
            atual = last ticks;
            med = sum_list ultimos20 / 20;
            desvio = sqrt (sum_list (map (\<lambda>t. (t - med)\<^sup>2) ultimos20) / 20)
        in
          if desvio = 0
          then defaultMeanReversion
                 \<lparr>razao := VolatilidadeZero, media := med, desvioPadrao := desvio\<rparr>
          else
            let z = (atual - med) / desvio;
                ultimos5 = slice_last 5 ultimos10;
                vel = somaVariacoes ultimos5;
                velocidadeAnterior = somaVariacoes (take 5 ultimos10);
                aceleracao = vel - velocidadeAnterior
            in
              if z > 1.5 \<and> vel > 0 then
                let boost = (if aceleracao < 0 then 0.1 else 0);
                    conf = min ((\<bar>z\<bar> - 1) / 2 + boost) 0.85
                in \<lparr>sinal = PUT, confianca = conf, razao = DesviosAcima z,
                    zScore = z, media = med, desvioPadrao = desvio, velocidade = vel\<rparr>
              else if z < - 1.5 \<and> vel < 0 then
                let boost = (if aceleracao > 0 then 0.1 else 0);
                    conf = min ((\<bar>z\<bar> - 1) / 2 + boost) 0.85
                in \<lparr>sinal = CALL, confianca = conf, razao = DesviosAbaixo \<bar>z\<bar>,
                    zScore = z, media = med, desvioPadrao = desvio, velocidade = vel\<rparr>
              else
                \<lparr>sinal = HOLD, confianca = 0, razao = ZScoreNormal z,
                 zScore = z, media = med, desvioPadrao = desvio, velocidade = vel\<rparr>)"

section \<open>Strategy 2: confirmed momentum\<close>

record momentum_confirmado_result = estrategia_result +
  consecutivas :: nat
  direcao :: direcao3
  variacaoTotal :: real
  variacaoMedia :: real
  forcaMovimento :: real

definition defaultMomentumConfirmado :: momentum_confirmado_result where
  "defaultMomentumConfirmado =
     \<lparr>sinal = HOLD, confianca = 0, razao = DadosInsuficientes,
      consecutivas = 0, direcao = LATERAL, variacaoTotal = 0, variacaoMedia = 0,
      forcaMovimento = 0\<rparr>"

text \<open>
  The counting loop runs from the newest difference backwards, so it is a recursion over
  the reversed differences; it carries \<open>consecutivasAlta\<close> and \<open>consecutivasBaixa\<close> and
  every \<^verbatim>\<open>break\<close> returns them.
\<close>

fun contarConsecutivas :: "real list \<Rightarrow> nat \<Rightarrow> nat \<Rightarrow> nat \<times> nat" where
  "contarConsecutivas [] alta baixa = (alta, baixa)"
| "contarConsecutivas (d # ds) alta baixa =
     (if d > 0 then (if baixa > 0 then (alta, baixa) else contarConsecutivas ds (alta + 1) baixa)
      else if d < 0 then (if alta > 0 then (alta, baixa) else contarConsecutivas ds alta (baixa + 1))
      else (alta, baixa))"

definition estrategiaMomentumConfirmado :: "real list \<Rightarrow> momentum_confirmado_result" where
  "estrategiaMomentumConfirmado ticks =
     (if length ticks < 15 then defaultMomentumConfirmado
      else
        let ultimos5 = slice_last 5 ticks;
            ultimos15 = slice_last 15 ticks;
            (consecutivasAlta, consecutivasBaixa) =
               contarConsecutivas (rev (diffsAdj ultimos5)) 0 0;
            consec = max consecutivasAlta consecutivasBaixa;
            dir = (if consecutivasAlta > consecutivasBaixa then ALTA
                   else if consecutivasBaixa > consecutivasAlta then BAIXA else LATERAL);
            varTotal = last ultimos5 - hd ultimos5;
            varMedia = somaVariacoesAbs ultimos15 / 14;
            forca = (if varMedia > 0 then \<bar>varTotal\<bar> / (varMedia * 5) else 0);
            res = (\<lambda>s c r. \<lparr>sinal = s, confianca = c, razao = r,
                     consecutivas = consec, direcao = dir, variacaoTotal = varTotal,
                     variacaoMedia = varMedia, forcaMovimento = forca\<rparr>)
        in
          if consec \<ge> 3 \<and> forca > 1.5 \<and> dir = ALTA then
            res PUT (min (0.5 + (real consec - 3) * 0.1 + (forca - 1.5) * 0.1) 0.8)
                (ConsecutivosAlta consec forca)
          else if consec \<ge> 3 \<and> forca > 1.5 \<and> dir = BAIXA then
            res CALL (min (0.5 + (real consec - 3) * 0.1 + (forca - 1.5) * 0.1) 0.8)
                (ConsecutivosBaixa consec forca)
          else if consec \<ge> 4 \<and> dir = ALTA then
            res PUT (min (0.45 + (real consec - 4) * 0.1) 0.7) (SequenciaAltas consec)
          else if consec \<ge> 4 \<and> dir = BAIXA then
            res CALL (min (0.45 + (real consec - 4) * 0.1) 0.7) (SequenciaBaixas consec)
          else
            res HOLD 0 (if consec > 0 then ApenasConsecutivos consec else SemPadrao))"

section \<open>Strategy 3: Hurst exponent by rescaled-range analysis\<close>

datatype persistencia3 = P_ALTA | P_MEDIA | P_BAIXA

datatype comportamento3 = PERSISTENTE | ANTIPERSISTENTE | ALEATORIO

record hurst_estrategia_result = estrategia_result +
  expoente :: real
  persistencia :: persistencia3
  previsibilidade :: real
  comportamento :: comportamento3
  direcaoAtual :: direcao3
  r2 :: real

definition defaultHurst :: hurst_estrategia_result where
  "defaultHurst =
     \<lparr>sinal = HOLD, confianca = 0, razao = DadosInsuficientes,
      expoente = 0.5, persistencia = P_MEDIA, previsibilidade = 0,
      comportamento = ALEATORIO, direcaoAtual = LATERAL, r2 = 0\<rparr>"

text \<open>
  \<^verbatim>\<open>Math.log(ticks[i] / ticks[i - 1])\<close> is a finite number exactly when the ratio is
  positive, that is when both prices are positive or both negative; otherwise it is
  \<open>NaN\<close> or an infinity, written \<open>None\<close>.
\<close>

definition logRetorno :: "real \<Rightarrow> real \<Rightarrow> real option" where
  "logRetorno anterior atual =
     (if (0 < anterior \<and> 0 < atual) \<or> (anterior < 0 \<and> atual < 0)
      then Some (ln (atual / anterior)) else None)"

fun retornosLog :: "real list \<Rightarrow> real option list" where
  "retornosLog (x # y # ys) = logRetorno x y # retornosLog (y # ys)"
| "retornosLog _ = []"

text \<open>Every real number is finite: \<^verbatim>\<open>isFinite\<close> only rejects what \<open>None\<close> stands for.\<close>

definition isFinite :: "real \<Rightarrow> bool" where
  "isFinite x = True"

text \<open>The running sums \<open>cumSum += dev\<close>, one per deviation.\<close>

fun somasAcumuladas :: "real \<Rightarrow> real list \<Rightarrow> real list" where
  "somasAcumuladas acc [] = []"
| "somasAcumuladas acc (d # ds) = (acc + d) # somasAcumuladas (acc + d) ds"

text \<open>
  \<^verbatim>\<open>diffs.slice(w * scale, w * scale + scale)\<close> for \<open>w = 0, \<dots>, numWindows - 1\<close>.
\<close>

definition janelas :: "nat \<Rightarrow> 'a list \<Rightarrow> 'a list list" where
  "janelas scale difs =
     map (\<lambda>w. take scale (drop (w * scale) difs)) [0 ..< length difs div scale]"

text \<open>
  R/S of one window of \<^verbatim>\<open>estrategiaHurst\<close>. A window holding a non-finite return has a
  \<open>NaN\<close> standard deviation, so the test \<^verbatim>\<open>S > 0\<close> fails and nothing is pushed.
\<close>

definition rsJanela :: "nat \<Rightarrow> real option list \<Rightarrow> real option" where
  "rsJanela scale window =
     (if length window < scale then None
      else case those window of
        None \<Rightarrow> None
      | Some w \<Rightarrow>
          let mean = sum_list w / real scale;
              deviations = map (\<lambda>x. x - mean) w;
              cumDevs = somasAcumuladas 0 deviations;
              R = Max (set cumDevs) - Min (set cumDevs);
              S = sqrt (sum_list (map (\<lambda>v. v * v) deviations) / real scale)
          in if S > 0 \<and> isFinite (R / S) then Some (R / S) else None)"

text \<open>
  One scale: the pair \<open>(ln avgRS, ln scale)\<close> pushed on \<^verbatim>\<open>ranges\<close> and \<^verbatim>\<open>scales\<close>,
  or nothing.
\<close>

definition pontoEscala :: "real option list \<Rightarrow> nat \<Rightarrow> (real \<times> real) option" where
  "pontoEscala difs scale =
     (let rsValues = List.map_filter (rsJanela scale) (janelas scale difs)
      in if length rsValues > 0 then
           let avgRS = sum_list rsValues / real (length rsValues)
           in if avgRS > 0 \<and> isFinite avgRS then Some (ln avgRS, ln (real scale)) else None
         else None)"

definition minScale :: nat where
  "minScale = 8"

text \<open>
  The scales visited by \<^verbatim>\<open>for (scale = minScale; scale <= maxScale; scale =
  Math.floor(scale * 1.4))\<close>. The loop variable starts at \<open>minScale\<close> and only grows, so
  the test \<open>minScale \<le> scale\<close> is always true there; it is what makes the recursion
  well founded.
\<close>

function escalas :: "nat \<Rightarrow> nat \<Rightarrow> nat list" where
  "escalas scale maxScale =
     (if minScale \<le> scale \<and> scale \<le> maxScale
      then scale # escalas (nat \<lfloor>real scale * 1.4\<rfloor>) maxScale else [])"
  by pat_completeness auto
termination
proof (relation "measure (\<lambda>(scale, maxScale). Suc maxScale - scale)")
  show "wf (measure (\<lambda>(scale, maxScale). Suc maxScale - scale))" by simp
next
  fix scale maxScale :: nat
  assume a: "minScale \<le> scale \<and> scale \<le> maxScale"
  then have "real scale + 1 \<le> real scale * 1.4" by (simp add: minScale_def)
  then have "\<lfloor>real scale + 1\<rfloor> \<le> \<lfloor>real scale * 1.4\<rfloor>" by (rule floor_mono)
  then have "scale < nat \<lfloor>real scale * 1.4\<rfloor>" by linarith
  moreover from a have "scale \<le> maxScale" by simp
  ultimately have "Suc maxScale - nat \<lfloor>real scale * 1.4\<rfloor> < Suc maxScale - scale"
    by (intro diff_less_mono2) simp_all
  then show "((nat \<lfloor>real scale * 1.4\<rfloor>, maxScale), (scale, maxScale))
                 \<in> measure (\<lambda>(scale, maxScale). Suc maxScale - scale)"
    by simp
qed

declare escalas.simps [simp del]

definition pontosHurst :: "real option list \<Rightarrow> (real \<times> real) list" where
  "pontosHurst difs =
     List.map_filter (pontoEscala difs) (escalas minScale (length difs div 3))"

text \<open>
  The linear regression of \<^verbatim>\<open>estrategiaHurst\<close> over the collected points; the result is
  the pair \<open>(expoente, r2)\<close>, which starts at \<open>(0.5, 0)\<close>.
\<close>

definition regressaoHurst :: "(real \<times> real) list \<Rightarrow> real \<times> real" where
  "regressaoHurst pontos =
     (let ranges = map fst pontos; scales = map snd pontos
      in if length ranges \<ge> 3 then
           let n = real (length ranges);
               sumX = sum_list scales;
               sumY = sum_list ranges;
               sumXY = sum_list (map2 (\<lambda>x y. x * y) scales ranges);
               sumX2 = sum_list (map (\<lambda>x. x * x) scales);
               denominator = n * sumX2 - sumX * sumX
           in if \<bar>denominator\<bar> > 1 / 10 ^ 10 then
                let slope = (n * sumXY - sumX * sumY) / denominator;
                    expo = max 0.1 (min 0.9 (if isFinite slope then slope else 0.5));
                    intercept = (sumY - slope * sumX) / n;
                    yMean = sumY / n;
                    ssTotal = sum_list (map (\<lambda>y. (y - yMean)\<^sup>2) ranges);
                    ssRes = sum_list (map2 (\<lambda>y x. (y - (intercept + slope * x))\<^sup>2)
                                        ranges scales)
                in (expo, if ssTotal > 0 then 1 - ssRes / ssTotal else 0)
              else (0.5, 0)
         else (0.5, 0))"

text \<open>
  \<^verbatim>\<open>variance < 1e-12\<close>: a non-finite return makes the variance \<open>NaN\<close> or infinite, and
  the comparison false.
\<close>

definition semVariacao :: "real option list \<Rightarrow> bool" where
  "semVariacao difs =
     (case those difs of
        None \<Rightarrow> False
      | Some ds \<Rightarrow> sum_list (map (\<lambda>d. d * d) ds) / real (length ds) < 1 / 10 ^ 12)"

definition estrategiaHurst :: "real list \<Rightarrow> hurst_estrategia_result" where
  "estrategiaHurst ticks =
     (if length ticks < 50 then defaultHurst
      else
        let difs = retornosLog ticks in
        if semVariacao difs then defaultHurst\<lparr>razao := SemVariacao\<rparr>
        else
          let (expo, rr) = regressaoHurst (pontosHurst difs);
              persist = (if expo > 0.6 then P_ALTA else if expo > 0.4 then P_MEDIA else P_BAIXA);
              desvioHurst = \<bar>expo - 0.5\<bar> * 2;
              previs = desvioHurst * max rr 0.3;
              comport = (if expo > 0.58 then PERSISTENTE
                         else if expo < 0.42 then ANTIPERSISTENTE else ALEATORIO);
              ultimos5 = slice_last 5 ticks;
              variacaoRecente = last ultimos5 - hd ultimos5;
              dirAtual = (if variacaoRecente > 0 then ALTA
                          else if variacaoRecente < 0 then BAIXA else LATERAL);
              res = (\<lambda>s c r. \<lparr>sinal = s, confianca = c, razao = r,
                       expoente = expo, persistencia = persist, previsibilidade = previs,
                       comportamento = comport, direcaoAtual = dirAtual, r2 = rr\<rparr>)
          in
            if expo > 0.58 \<and> rr > 0.5 \<and> dirAtual \<noteq> LATERAL then
              let conf = min (desvioHurst * rr * 1.5) 0.7
              in if dirAtual = ALTA then res CALL conf (PersistenteAltaContinua expo rr)
                 else res PUT conf (PersistenteBaixaContinua expo rr)
            else if expo < 0.42 \<and> rr > 0.5 \<and> dirAtual \<noteq> LATERAL then
              let conf = min (desvioHurst * rr * 1.5) 0.7
              in if dirAtual = ALTA then res PUT conf (AntipersistenteAltaReverte expo rr)
                 else res CALL conf (AntipersistenteBaixaReverte expo rr)
            else
              res HOLD 0 (if rr < 0.5 then R2Baixo expo rr else ProximoDeMeio expo))"

section \<open>Strategy 4: persistent momentum\<close>

subsection \<open>The fast Hurst estimate\<close>

text \<open>
  \<^verbatim>\<open>calcularHurstRapido\<close> keeps a return only when the previous price is positive and
  the logarithm is finite.
\<close>

fun retornosLogRapido :: "real list \<Rightarrow> real list" where
  "retornosLogRapido (x # y # ys) =
     (if x > 0 then (case logRetorno x y of Some r \<Rightarrow> [r] | None \<Rightarrow> []) else [])
       @ retornosLogRapido (y # ys)"
| "retornosLogRapido _ = []"

text \<open>
  R/S of one window. \<^verbatim>\<open>maxCum\<close> and \<^verbatim>\<open>minCum\<close> start at the infinities, so over an
  empty window \<open>R\<close> would be \<open>-Infinity\<close> and the test \<^verbatim>\<open>R > 0\<close> false.
\<close>

definition rsJanelaRapido :: "nat \<Rightarrow> real list \<Rightarrow> real option" where
  "rsJanelaRapido scale window =
     (let mean = sum_list window / real scale;
          deviations = map (\<lambda>x. x - mean) window;
          cums = somasAcumuladas 0 deviations
      in if cums = [] then None
         else
           let maxCum = Max (set cums);
               minCum = Min (set cums);
               R = maxCum - minCum;
               S = sqrt (sum_list (map (\<lambda>v. v * v) deviations) / real scale)
           in if S > 0 \<and> R > 0 \<and> isFinite (R / S) then Some (R / S) else None)"

definition pontoEscalaRapido :: "real list \<Rightarrow> nat \<Rightarrow> (real \<times> real) option" where
  "pontoEscalaRapido difs scale =
     (if length difs < scale * 2 then None
      else
        let rsValues = List.map_filter (rsJanelaRapido scale) (janelas scale difs)
        in if length rsValues > 0 then
             let avgRS = sum_list rsValues / real (length rsValues)
             in if avgRS > 0 \<and> isFinite avgRS then Some (ln avgRS, ln (real scale)) else None
           else None)"

definition pontosRapido :: "real list \<Rightarrow> (real \<times> real) list" where
  "pontosRapido difs = List.map_filter (pontoEscalaRapido difs) [8, 12, 16, 24, 32]"

text \<open>The result is the pair \<open>(hurst, r2)\<close>.\<close>

definition regressaoRapido :: "(real \<times> real) list \<Rightarrow> real \<times> real" where
  "regressaoRapido pontos =
     (let ranges = map fst pontos; scales = map snd pontos
      in if length ranges < 2 then (0.5, 0)
         else
           let n = real (length ranges);
               sumX = sum_list scales;
               sumY = sum_list ranges;
               sumXY = sum_list (map2 (\<lambda>x y. x * y) scales ranges);
               sumX2 = sum_list (map (\<lambda>x. x * x) scales);
               denominator = n * sumX2 - sumX * sumX
           in if \<bar>denominator\<bar> < 1 / 10 ^ 10 then (0.5, 0)
              else
                let slope = (n * sumXY - sumX * sumY) / denominator;
                    h = max 0.1 (min 0.9 slope);
                    intercept = (sumY - slope * sumX) / n;
                    yMean = sumY / n;
                    ssTotal = sum_list (map (\<lambda>y. (y - yMean)\<^sup>2) ranges);
                    ssRes = sum_list (map2 (\<lambda>y x. (y - (intercept + slope * x))\<^sup>2)
                                        ranges scales)
                in (h, if ssTotal > 0 then max 0 (1 - ssRes / ssTotal) else 0))"

definition calcularHurstRapido :: "real list \<Rightarrow> real \<times> real" where
  "calcularHurstRapido ticks =
     (let difs = retornosLogRapido ticks
      in if length difs < 30 then (0.5, 0) else regressaoRapido (pontosRapido difs))"

subsection \<open>Trend measures over the last 15 ticks\<close>

text \<open>
  The run of same-direction moves, counted from the newest difference backwards: flat
  moves are skipped, the first move in the other direction ends the loop. The loop's
  \<^verbatim>\<open>direcaoAtual\<close> is \<open>dirAtual\<close>, \<open>None\<close> for \<^verbatim>\<open>null\<close>.
\<close>

definition dirDe :: "real \<Rightarrow> int" where
  "dirDe d = (if d > 0 then 1 else if d < 0 then - 1 else 0)"

fun contarMesmaDirecao :: "real list \<Rightarrow> int option \<Rightarrow> nat \<Rightarrow> nat" where
  "contarMesmaDirecao [] dirAtual consecutivos = consecutivos"
| "contarMesmaDirecao (d # ds) dirAtual consecutivos =
     (if dirDe d = 0 then contarMesmaDirecao ds dirAtual consecutivos
      else case dirAtual of
        None \<Rightarrow> contarMesmaDirecao ds (Some (dirDe d)) 1
      | Some atual \<Rightarrow>
          if dirDe d = atual then contarMesmaDirecao ds dirAtual (consecutivos + 1)
          else consecutivos)"

text \<open>The number of direction changes, oldest difference first.\<close>

fun contarMudancas :: "real list \<Rightarrow> int \<Rightarrow> nat \<Rightarrow> nat" where
  "contarMudancas [] ultimaDirecao mudancas = mudancas"
| "contarMudancas (d # ds) ultimaDirecao mudancas =
     (if dirDe d \<noteq> 0 \<and> dirDe d \<noteq> ultimaDirecao
      then contarMudancas ds (dirDe d)
             (if ultimaDirecao \<noteq> 0 then mudancas + 1 else mudancas)
      else contarMudancas ds ultimaDirecao mudancas)"

definition mudancasDirecao :: "real list \<Rightarrow> nat" where
  "mudancasDirecao ticks = contarMudancas (diffsAdj (slice_last 15 ticks)) 0 0"

subsection \<open>The detector\<close>

record momentum_persistente_result = estrategia_result +
  hurst :: real
  r2 :: real
  direcaoCurta :: direcao3
  direcaoMedia :: direcao3
  direcaoLonga :: direcao3
  alinhamento :: real
  forca :: real
  isPersistente :: bool
  eficiencia :: real
  adx :: real
  isLateral :: bool

definition defaultMomentumPersistente :: momentum_persistente_result where
  "defaultMomentumPersistente =
     \<lparr>sinal = HOLD, confianca = 0, razao = DadosInsuficientes,
      hurst = 0.5, r2 = 0, direcaoCurta = LATERAL, direcaoMedia = LATERAL,
      direcaoLonga = LATERAL, alinhamento = 0, forca = 0, isPersistente = False,
      eficiencia = 0, adx = 0, isLateral = True\<rparr>"

definition direcaoDe :: "real \<Rightarrow> real \<Rightarrow> direcao3" where
  "direcaoDe v threshold =
     (if v > threshold then ALTA else if v < - threshold then BAIXA else LATERAL)"

text \<open>
  The two signal rules and the final \<open>HOLD\<close> (the source from \<^verbatim>\<open>REGRA PRINCIPAL\<close> to
  the end of the function). \<open>m\<close> holds the measures computed so far, as the fields every
  returned object copies; \<open>altaCount\<close>, \<open>baixaCount\<close> and \<open>maxCount\<close> are the locals of
  the same names.
\<close>

definition regrasMomentumPersistente ::
  "momentum_persistente_result \<Rightarrow> nat \<Rightarrow> nat \<Rightarrow> nat \<Rightarrow> momentum_persistente_result" where
  "regrasMomentumPersistente m altaCount baixaCount maxCount =
     (if isPersistente m \<and> alinhamento m \<ge> 0.8 then
        let direcaoMajoritaria = (if altaCount > baixaCount then ALTA else BAIXA);
            confiancaBase = (hurst m - 0.5) * 2;
            confiancaR2 = r2 m * 0.2;
            confiancaAlinhamento = alinhamento m * 0.2;
            confiancaForca = min (forca m * 0.1) 0.2;
            confiancaEficiencia = eficiencia m * 0.2;
            conf = min (confiancaBase + confiancaR2 + confiancaAlinhamento
                        + confiancaForca + confiancaEficiencia) 0.80
        in if direcaoMajoritaria = ALTA
           then m\<lparr>sinal := CALL, confianca := conf,
                  razao := TendenciaAlta (hurst m) (adx m) altaCount\<rparr>
           else m\<lparr>sinal := PUT, confianca := conf,
                  razao := TendenciaBaixa (hurst m) (adx m) baixaCount\<rparr>
      else if isPersistente m \<and> maxCount \<ge> 2 \<and> forca m > 1.5 then
        let direcaoMajoritaria = (if altaCount > baixaCount then ALTA else BAIXA);
            conf = min ((hurst m - 0.5) * 1.5 + forca m * 0.1) 0.55
        in if direcaoMajoritaria = ALTA
           then m\<lparr>sinal := CALL, confianca := conf,
                  razao := ForcaAlta (hurst m) (forca m) (adx m) altaCount\<rparr>
           else m\<lparr>sinal := PUT, confianca := conf,
                  razao := ForcaBaixa (hurst m) (forca m) (adx m) baixaCount\<rparr>
      else
        m\<lparr>sinal := HOLD, confianca := 0,
           razao := (if isPersistente m then NaoAlinhadas (hurst m) maxCount
                     else NaoPersistente (hurst m))\<rparr>)"


text \<open>
  The function body is long; its independent parts are named here and put together in
  \<open>momentumPersistentStrategy\<close> below, in the source's order.

  \<open>hurstHistorico\<close> is the optional argument, \<open>None\<close> when the caller gives none;
  \<^verbatim>\<open>!hurstHistorico\<close> is also true of the number \<open>0\<close>. \<open>hurstLocal\<close> is the pair
  \<open>(hurst, r2)\<close> after \<^verbatim>\<open>let hurst = hurstHistorico ?? 0.5; let r2 = 0.8; if
  (!hurstHistorico && ticks.length >= 50) { ... }\<close>.
\<close>

definition hurstLocal :: "real list \<Rightarrow> real option \<Rightarrow> real \<times> real" where
  "hurstLocal ticks hurstHistorico =
     (if (hurstHistorico = None \<or> hurstHistorico = Some 0) \<and> length ticks \<ge> 50
      then calcularHurstRapido ticks
      else (case hurstHistorico of None \<Rightarrow> 0.5 | Some v \<Rightarrow> v, 0.8))"

text \<open>\<^verbatim>\<open>arr[arr.length - 1] - arr[0]\<close> of a window.\<close>

definition variacao :: "real list \<Rightarrow> real" where
  "variacao arr = last arr - hd arr"

text \<open>The strength of the latest move: \<open>|varCurta|\<close> over the 20-tick deviation.\<close>

definition forcaDe :: "real list \<Rightarrow> real" where
  "forcaDe ticks =
     (let varCurta = variacao (slice_last 3 ticks);
          ultimos20 = slice_last 20 ticks;
          media20 = sum_list ultimos20 / 20;
          stdDev = sqrt (sum_list (map (\<lambda>t. (t - media20)\<^sup>2) ultimos20) / 20)
      in if stdDev > 0 then \<bar>varCurta\<bar> / stdDev else 0)"

text \<open>The efficiency ratio of the last 15 ticks.\<close>

definition eficienciaDe :: "real list \<Rightarrow> real" where
  "eficienciaDe ultimos15 =
     (let movimentoLiquido = \<bar>variacao ultimos15\<bar>;
          movimentoTotal = somaVariacoesAbs ultimos15
      in if movimentoTotal > 0 then movimentoLiquido / movimentoTotal else 0)"

text \<open>The simplified ADX, from the efficiency, the run and the direction changes.\<close>

definition adxDe :: "real \<Rightarrow> real list \<Rightarrow> nat \<Rightarrow> real" where
  "adxDe efic ultimos15 mudancas =
     (let consecutivosMesmaDirecao = contarMesmaDirecao (rev (diffsAdj ultimos15)) None 0;
          eficienciaScore = efic * 40;
          consecutivosScore = min (real consecutivosMesmaDirecao * 10) 30;
          mudancasScore = max (30 - real mudancas * 5) 0
      in eficienciaScore + consecutivosScore + mudancasScore)"

definition momentumPersistentStrategy ::
  "real list \<Rightarrow> real option \<Rightarrow> momentum_persistente_result" where
  "momentumPersistentStrategy ticks hurstHistorico =
     (if length ticks < 20 then defaultMomentumPersistente
      else
        let (h, rr) = hurstLocal ticks hurstHistorico;
            persistente = (h > 0.58);
            ultimos15 = slice_last 15 ticks;
            varCurta = variacao (slice_last 3 ticks);
            varMedia = variacao (slice_last 7 ticks);
            varLonga = variacao ultimos15;
            avgTick = sum_list ticks / real (length ticks);
            threshold = avgTick * 0.0001;
            dCurta = direcaoDe varCurta threshold;
            dMedia = direcaoDe varMedia threshold;
            dLonga = direcaoDe varLonga threshold;
            direcoes = [dCurta, dMedia, dLonga];
            altaCount = length (filter (\<lambda>d. d = ALTA) direcoes);
            baixaCount = length (filter (\<lambda>d. d = BAIXA) direcoes);
            lateralCount = length (filter (\<lambda>d. d = LATERAL) direcoes);
            maxCount = max altaCount baixaCount;
            alinh = (real maxCount - real lateralCount * 0.5) / 3;
            forc = forcaDe ticks;
            efic = eficienciaDe ultimos15;
            mudancas = mudancasDirecao ticks;
            adxv = adxDe efic ultimos15 mudancas;
            lateral = (efic < 0.3 \<or> adxv < 25 \<or> mudancas > 5)
        in regrasMomentumPersistente
             \<lparr>sinal = HOLD, confianca = 0, razao = DadosInsuficientes,
              hurst = h, r2 = rr, direcaoCurta = dCurta, direcaoMedia = dMedia,
              direcaoLonga = dLonga, alinhamento = alinh, forca = forc,
              isPersistente = persistente, eficiencia = efic, adx = adxv,
              isLateral = lateral\<rparr>
             altaCount baixaCount maxCount)"

section \<open>The trade reconciler and the tick window\<close>

text \<open>
  The module-level variables of the bot's entry file and the calls it makes to its
  collaborators, as one state record. A call to a collaborator is logged in the state:
  \<open>savedTrades\<close> holds the records passed to \<^verbatim>\<open>tradeService.saveTrade\<close>,
  \<open>tradeResults\<close> the arguments of \<^verbatim>\<open>telegramManager.updateTradeResult\<close>,
  \<open>messages\<close> the texts sent (as templates with their arguments), \<open>polled\<close> the
  contract ids of the \<^verbatim>\<open>proposal_open_contract\<close> requests and \<open>authorizeCalls\<close>
  the number of calls of \<^verbatim>\<open>apiManager.authorize\<close>. \<open>tradeTimeoutSet\<close> says that
  \<^verbatim>\<open>lastContractIntervalId\<close> is not null, \<open>botRunning\<close> is
  \<^verbatim>\<open>telegramManager.isRunningBot()\<close>. Timestamps are left out. An \<^verbatim>\<open>async\<close>
  function is run to its end in one step.
\<close>

datatype contract_status = Open | Sold | Won | Lost | Cancelled

record contract =
  c_profit :: "real option"
  c_buy_price :: "real option"
  c_status :: "contract_status option"

record trade_record =
  isWin :: bool
  stake :: real
  profit :: real
  balanceAfter :: real

datatype mensagem =
    MsgTradeGanho real real
  | MsgTradePerdido real real
  | MsgAutorizado
  | MsgErroAutorizar
  | MsgBotParado

record 'mm bot_state =
  isAuthorized :: bool
  isTrading :: bool
  consecutiveWins :: nat
  lastContractId :: "nat option"
  tradeTimeoutSet :: bool
  tickCount :: nat
  retryToGetLastTradeCount :: nat
  moneyManager :: 'mm
  savedTrades :: "trade_record list"
  tradeResults :: "(bool \<times> real) list"
  messages :: "mensagem list"
  polled :: "nat list"
  authorizeCalls :: nat
  botRunning :: bool

text \<open>
  The class \<^verbatim>\<open>MoneyManager\<close> (\<^verbatim>\<open>./money-management/moneyManager\<close>) is not part of
  the sources at hand; the two methods the reconciler calls are parameters. The callbacks
  the manager may fire are outside the model.
\<close>

record 'mm money_manager =
  getCurrentBalance :: "'mm \<Rightarrow> real"
  updateLastTrade :: "bool \<Rightarrow> 'mm \<Rightarrow> 'mm"

text \<open>
  The broker: the outcome of the \<open>n\<close>-th \<^verbatim>\<open>proposal_open_contract\<close> request (for a
  contract id) and of the \<open>k\<close>-th authorization. A response may carry no contract
  (\<^verbatim>\<open>data.proposal_open_contract\<close> undefined); a rejected request has the error code
  \<^verbatim>\<open>AuthorizationRequired\<close> or another one.
\<close>

datatype poll_outcome = Resposta "contract option" | AuthorizationRequired | OutroErro

record broker =
  pollResult :: "nat \<Rightarrow> nat \<Rightarrow> poll_outcome"
  authorizeResult :: "nat \<Rightarrow> bool"

definition clearTradeTimeout :: "'mm bot_state \<Rightarrow> 'mm bot_state" where
  "clearTradeTimeout s = (if tradeTimeoutSet s then s\<lparr>tradeTimeoutSet := False\<rparr> else s)"

definition handleTradeResult ::
  "'mm money_manager \<Rightarrow> real \<Rightarrow> real \<Rightarrow> contract_status \<Rightarrow> 'mm bot_state \<Rightarrow> 'mm bot_state" where
  "handleTradeResult mm prof stk status s =
     (if status = Open then s
      else
        let win = (status = Won);
            currentBalance = getCurrentBalance mm (moneyManager s);
            s1 = s\<lparr>isTrading := False, lastContractId := None\<rparr>;
            newBalance = (if win then currentBalance + prof else currentBalance - stk);
            s2 = s1\<lparr>consecutiveWins := (if win then consecutiveWins s1 + 1 else 0)\<rparr>;
            s3 = s2\<lparr>moneyManager := updateLastTrade mm win (moneyManager s2)\<rparr>;
            s4 = s3\<lparr>tradeResults :=
                      tradeResults s3 @ [(win, getCurrentBalance mm (moneyManager s3))]\<rparr>;
            s5 = s4\<lparr>messages := messages s4 @
                      [if win then MsgTradeGanho prof (getCurrentBalance mm (moneyManager s4))
                       else MsgTradePerdido stk (getCurrentBalance mm (moneyManager s4))]\<rparr>;
            s6 = s5\<lparr>savedTrades := savedTrades s5 @
                      [\<lparr>isWin = win, stake = stk,
                        profit = (if win then prof else - stk),
                        balanceAfter = newBalance\<rparr>]\<rparr>
        in clearTradeTimeout s6)"

definition authorize :: "broker \<Rightarrow> 'mm bot_state \<Rightarrow> 'mm bot_state" where
  "authorize br s =
     (let ok = authorizeResult br (authorizeCalls s);
          s1 = s\<lparr>authorizeCalls := authorizeCalls s + 1\<rparr>
      in if ok then s1\<lparr>isAuthorized := True, messages := messages s1 @ [MsgAutorizado]\<rparr>
         else s1\<lparr>isAuthorized := False, messages := messages s1 @ [MsgErroAutorizar]\<rparr>)"

text \<open>
  The fields read off a response: \<^verbatim>\<open>contract?.profit ?? 0\<close>,
  \<^verbatim>\<open>contract?.buy_price ?? 0\<close> (\<^verbatim>\<open>|| 0\<close> in the subscription: the same number)
  and \<^verbatim>\<open>contract?.status ?? "open"\<close>.
\<close>

definition profitDe :: "contract option \<Rightarrow> real" where
  "profitDe data =
     (case data of None \<Rightarrow> 0 | Some c \<Rightarrow> (case c_profit c of None \<Rightarrow> 0 | Some v \<Rightarrow> v))"

definition stakeDe :: "contract option \<Rightarrow> real" where
  "stakeDe data =
     (case data of None \<Rightarrow> 0 | Some c \<Rightarrow> (case c_buy_price c of None \<Rightarrow> 0 | Some v \<Rightarrow> v))"

definition statusDe :: "contract option \<Rightarrow> contract_status" where
  "statusDe data =
     (case data of None \<Rightarrow> Open | Some c \<Rightarrow> (case c_status c of None \<Rightarrow> Open | Some v \<Rightarrow> v))"

text \<open>
  \<^verbatim>\<open>getLastTradeResult(contractId)\<close>. \<^verbatim>\<open>!contractId\<close> holds for \<^verbatim>\<open>undefined\<close> and
  for the number 0. \<^verbatim>\<open>authorize()\<close> catches its own failure, so the promise resolves
  either way and the retry in \<^verbatim>\<open>.then\<close> always runs. The recursion ends because each
  retry has first raised \<open>retryToGetLastTradeCount\<close>, which the second line bounds by 2.
\<close>

function getLastTradeResult ::
  "'mm money_manager \<Rightarrow> broker \<Rightarrow> nat option \<Rightarrow> 'mm bot_state \<Rightarrow> 'mm bot_state" where
  "getLastTradeResult mm br contractId s =
     (case contractId of
        None \<Rightarrow> s
      | Some cid \<Rightarrow>
          if cid = 0 then s
          else if retryToGetLastTradeCount s \<ge> 2 then s
          else
            (case pollResult br (length (polled s)) cid of
               Resposta data \<Rightarrow>
                 let s1 = s\<lparr>polled := polled s @ [cid], retryToGetLastTradeCount := 0\<rparr>;
                     s2 = handleTradeResult mm (profitDe data) (stakeDe data) (statusDe data) s1
                 in s2\<lparr>isTrading := False, lastContractId := None, tickCount := 0\<rparr>
             | AuthorizationRequired \<Rightarrow>
                 getLastTradeResult mm br contractId
                   (authorize br
                      (s\<lparr>polled := polled s @ [cid],
                         retryToGetLastTradeCount := retryToGetLastTradeCount s + 1\<rparr>))
             | OutroErro \<Rightarrow> s\<lparr>polled := polled s @ [cid]\<rparr>))"
  by pat_completeness auto
termination
  by (relation "measure (\<lambda>(mm, br, contractId, s). 2 - retryToGetLastTradeCount s)")
    (auto simp add: authorize_def Let_def)

declare getLastTradeResult.simps [simp del]

text \<open>
  The callback of the interval set by \<^verbatim>\<open>createTradeTimeout\<close>; it runs only while the
  interval is set.
\<close>

definition watchdogTick :: "'mm money_manager \<Rightarrow> broker \<Rightarrow> 'mm bot_state \<Rightarrow> 'mm bot_state" where
  "watchdogTick mm br s =
     (if tradeTimeoutSet s \<and> lastContractId s \<noteq> None \<and> lastContractId s \<noteq> Some 0
      then getLastTradeResult mm br (lastContractId s) s else s)"

text \<open>
  The handler of the \<^verbatim>\<open>proposal_open_contract\<close> subscription, for one pushed update.
  When the bot is not running it only unsubscribes.
\<close>

definition onContractUpdate ::
  "'mm money_manager \<Rightarrow> contract option \<Rightarrow> 'mm bot_state \<Rightarrow> 'mm bot_state" where
  "onContractUpdate mm data s =
     (if \<not> botRunning s then s
      else handleTradeResult mm (profitDe data) (stakeDe data) (statusDe data) s)"

text \<open>
  \<^verbatim>\<open>clearSubscriptions\<close> and \<^verbatim>\<open>stopBot\<close>, on the variables of the state record
  (the subscriptions and the tick window are kept apart from it). Neither touches
  \<^verbatim>\<open>lastContractId\<close> or the interval of the watchdog.
\<close>

definition clearSubscriptions :: "'mm bot_state \<Rightarrow> 'mm bot_state" where
  "clearSubscriptions s = s\<lparr>isTrading := False, isAuthorized := False\<rparr>"

definition stopBot :: "'mm bot_state \<Rightarrow> 'mm bot_state" where
  "stopBot s =
     (let s1 = clearSubscriptions s;
          s2 = s1\<lparr>isTrading := False, retryToGetLastTradeCount := 0\<rparr>
      in s2\<lparr>messages := messages s2 @ [MsgBotParado]\<rparr>)"

text \<open>
  The events that reach the reconciler once a contract is placed: a firing of the
  watchdog's interval, an update pushed by the subscription, a stop of the bot. They
  are handled one at a time, in the order of arrival.
\<close>

datatype evento = Watchdog | Push "contract option" | Stop

fun aplicarEvento ::
  "'mm money_manager \<Rightarrow> broker \<Rightarrow> evento \<Rightarrow> 'mm bot_state \<Rightarrow> 'mm bot_state" where
  "aplicarEvento mm br Watchdog s = watchdogTick mm br s"
| "aplicarEvento mm br (Push data) s = onContractUpdate mm data s"
| "aplicarEvento mm br Stop s = stopBot s"

definition executar ::
  "'mm money_manager \<Rightarrow> broker \<Rightarrow> evento list \<Rightarrow> 'mm bot_state \<Rightarrow> 'mm bot_state" where
  "executar mm br evs s = foldl (\<lambda>st ev. aplicarEvento mm br ev st) s evs"

subsection \<open>The tick window\<close>

text \<open>
  The two updates of \<^verbatim>\<open>ticksMap\<close> in the tick subscription's handler, for the one
  symbol of the deployment; \<open>None\<close> is a map without the symbol. A history message
  may lack its prices and a tick its quote.
\<close>

datatype tick_data = History "real list option" | Tick "real option" | OutraMensagem

definition janela :: "real list option \<Rightarrow> real list" where
  "janela ticksMap = (case ticksMap of None \<Rightarrow> [] | Some ts \<Rightarrow> ts)"

definition atualizarTicks :: "tick_data \<Rightarrow> real list option \<Rightarrow> real list option" where
  "atualizarTicks data ticksMap =
     (case data of
        History prices \<Rightarrow> Some (case prices of None \<Rightarrow> [] | Some ps \<Rightarrow> ps)
      | Tick quote \<Rightarrow>
          let currentPrice = (case quote of None \<Rightarrow> 0 | Some q \<Rightarrow> q);
              prevTicks = janela ticksMap
          in if length prevTicks \<ge> 50 then Some (tl prevTicks @ [currentPrice]) else ticksMap
      | OutraMensagem \<Rightarrow> ticksMap)"

subsection \<open>Concrete collaborators and states\<close>

text \<open>
  Modelled from the spec: the \<^verbatim>\<open>MoneyManager\<close> class of
  \<^verbatim>\<open>./money-management/moneyManager\<close>, which is not among the sources, in its fixed
  policy with the deployment's configuration (stake 0.35, payout 88 percent): the state
  is the current balance, a win adds the stake's payout and a loss subtracts the stake.
  It only serves to run the reconciler on concrete states.
\<close>

definition balanceOf :: "real \<Rightarrow> real" where
  "balanceOf b = b"

definition fixedUpdate :: "bool \<Rightarrow> real \<Rightarrow> real" where
  "fixedUpdate win b = (if win then b + 0.35 * 88 / 100 else b - 0.35)"

definition fixedManager :: "real money_manager" where
  "fixedManager = \<lparr>getCurrentBalance = balanceOf, updateLastTrade = fixedUpdate\<rparr>"

text \<open>A bot with contract 7 placed: trading, watchdog set, nothing settled yet.\<close>

definition placedState :: "real bot_state" where
  "placedState =
     \<lparr>isAuthorized = True, isTrading = True, consecutiveWins = 0, lastContractId = Some 7,
      tradeTimeoutSet = True, tickCount = 3, retryToGetLastTradeCount = 0,
      moneyManager = 100, savedTrades = [], tradeResults = [], messages = [],
      polled = [], authorizeCalls = 0, botRunning = True\<rparr>"

definition openContract :: contract where
  "openContract = \<lparr>c_profit = Some 0, c_buy_price = Some 0.35, c_status = Some Open\<rparr>"

definition wonContract :: contract where
  "wonContract = \<lparr>c_profit = Some 0.31, c_buy_price = Some 0.35, c_status = Some Won\<rparr>"

text \<open>A broker that answers every poll with the open contract.\<close>

definition pollOpen :: "nat \<Rightarrow> nat \<Rightarrow> poll_outcome" where
  "pollOpen n cid = Resposta (Some openContract)"

definition authOk :: "nat \<Rightarrow> bool" where
  "authOk k = True"

definition brokerOpen :: broker where
  "brokerOpen = \<lparr>pollResult = pollOpen, authorizeResult = authOk\<rparr>"

text \<open>A broker that rejects every poll for lack of authorization, and every login.\<close>

definition pollUnauthorized :: "nat \<Rightarrow> nat \<Rightarrow> poll_outcome" where
  "pollUnauthorized n cid = AuthorizationRequired"

definition authFail :: "nat \<Rightarrow> bool" where
  "authFail k = False"

definition brokerUnauthorized :: broker where
  "brokerUnauthorized = \<lparr>pollResult = pollUnauthorized, authorizeResult = authFail\<rparr>"

definition exhaustedState :: "real bot_state" where
  "exhaustedState = placedState\<lparr>retryToGetLastTradeCount := 2, authorizeCalls := 2,
     isAuthorized := False, polled := [7, 7], messages := [MsgErroAutorizar, MsgErroAutorizar]\<rparr>"

text \<open>
  What is left of the retry budget of a pending contract, added to the logins made so
  far: no poll raises it.
\<close>

definition potencial :: "'mm bot_state \<Rightarrow> nat" where
  "potencial s = authorizeCalls s
     + (if lastContractId s = None \<or> lastContractId s = Some 0 then 0
        else 2 - retryToGetLastTradeCount s)"

text \<open>A history message within the 50 prices the subscription asks for.\<close>

definition dentroDoPedido :: "tick_data \<Rightarrow> bool" where
  "dentroDoPedido data =
     (case data of History (Some ps) \<Rightarrow> length ps \<le> 50 | _ \<Rightarrow> True)"

text \<open>The window after a sequence of messages.\<close>

definition aplicarMensagens :: "tick_data list \<Rightarrow> real list option \<Rightarrow> real list option" where
  "aplicarMensagens msgs ticksMap = foldl (\<lambda>m d. atualizarTicks d m) ticksMap msgs"

section \<open>Properties of the detectors\<close>

subsection \<open>Auxiliary facts\<close>

lemma regras_not_persistente:
  "\<not> isPersistente m \<Longrightarrow>
     sinal (regrasMomentumPersistente m a b c) = HOLD
     \<and> confianca (regrasMomentumPersistente m a b c) = 0"
  by (simp add: regrasMomentumPersistente_def)




lemma hurstLocal_short:
  "length ticks < 50 \<Longrightarrow> hurstLocal ticks None = (0.5, 0.8)"
  by (simp add: hurstLocal_def)

text \<open>
  From 20 ticks on, the detector's result is the rules applied to the measures; the
  fields of the measures are read off the definition without evaluating them.
\<close>

lemma momentumPersistentStrategy_shape:
  assumes "20 \<le> length ticks"
  shows "\<exists>m a b c. momentumPersistentStrategy ticks h = regrasMomentumPersistente m a b c
           \<and> hurst m = fst (hurstLocal ticks h)
           \<and> r2 m = snd (hurstLocal ticks h)
           \<and> isPersistente m = (0.58 < fst (hurstLocal ticks h))
           \<and> forca m = forcaDe ticks
           \<and> eficiencia m = eficienciaDe (slice_last 15 ticks)
           \<and> adx m = adxDe (eficienciaDe (slice_last 15 ticks)) (slice_last 15 ticks)
                        (mudancasDirecao ticks)
           \<and> isLateral m = (eficienciaDe (slice_last 15 ticks) < 0.3
                \<or> adxDe (eficienciaDe (slice_last 15 ticks)) (slice_last 15 ticks)
                     (mudancasDirecao ticks) < 25
                \<or> mudancasDirecao ticks > 5)"
proof -
  from assms have "\<not> length ticks < 20" by simp
  then show ?thesis
    unfolding momentumPersistentStrategy_def Let_def split_def
    apply (simp only: if_False)
    apply (intro exI conjI)
           apply (rule refl)
          apply (simp_all only: momentum_persistente_result.select_convs
        estrategia_result.select_convs)
    done
qed



text \<open>
  The confidence bounds are linear facts about a few quantities (the z-score, the force,
  the run length); the proofs name these quantities so that arithmetic sees them as atoms.
\<close>

lemma mean_reversion_conf:
  "0 \<le> confianca (estrategiaMeanReversion ticks) \<and> confianca (estrategiaMeanReversion ticks) \<le> 1"
proof -
  define med where "med = sum_list (slice_last 20 ticks) / 20"
  define desvio where
    "desvio = sqrt (sum_list (map (\<lambda>t. (t - med)\<^sup>2) (slice_last 20 ticks)) / 20)"
  define z where "z = (last ticks - med) / desvio"
  define vel where "vel = somaVariacoes (slice_last 5 (slice_last 10 ticks))"
  define acel where "acel = vel - somaVariacoes (take 5 (slice_last 10 ticks))"
  note eq = estrategiaMeanReversion_def [of ticks, unfolded Let_def,
      folded med_def, folded desvio_def, folded z_def, folded vel_def, folded acel_def]
  show ?thesis
    unfolding eq by (auto simp add: defaultMeanReversion_def min_le_iff_disj)
qed

lemma momentum_confirmado_conf:
  "0 \<le> confianca (estrategiaMomentumConfirmado ticks)
   \<and> confianca (estrategiaMomentumConfirmado ticks) \<le> 1"
proof -
  define cs where "cs = contarConsecutivas (rev (diffsAdj (slice_last 5 ticks))) 0 0"
  define consec where "consec = max (fst cs) (snd cs)"
  define varMedia where "varMedia = somaVariacoesAbs (slice_last 15 ticks) / 14"
  define forc where "forc =
    (if varMedia > 0
     then \<bar>last (slice_last 5 ticks) - hd (slice_last 5 ticks)\<bar> / (varMedia * 5) else 0)"
  note eq = estrategiaMomentumConfirmado_def [of ticks, unfolded Let_def split_def,
      folded cs_def, folded consec_def, folded varMedia_def, folded forc_def]
  show ?thesis
    unfolding eq by (auto simp add: defaultMomentumConfirmado_def min_le_iff_disj)
qed

lemma hurst_conf:
  "0 \<le> confianca (estrategiaHurst ticks) \<and> confianca (estrategiaHurst ticks) \<le> 1"
proof (cases "length ticks < 50 \<or> semVariacao (retornosLog ticks)")
  case True
  then show ?thesis by (auto simp add: estrategiaHurst_def defaultHurst_def)
next
  case False
  obtain e rr where eq: "regressaoHurst (pontosHurst (retornosLog ticks)) = (e, rr)"
    by (cases "regressaoHurst (pontosHurst (retornosLog ticks))")
  from False eq show ?thesis
    unfolding estrategiaHurst_def Let_def
    by (simp add: min_le_iff_disj zero_le_mult_iff)
qed

lemma regras_conf:
  assumes "isPersistente m \<longrightarrow> 0.5 \<le> hurst m" and "0 \<le> r2 m" and "0 \<le> forca m"
    and "0 \<le> eficiencia m"
  shows "0 \<le> confianca (regrasMomentumPersistente m a b c)
         \<and> confianca (regrasMomentumPersistente m a b c) \<le> 1"
  using assms unfolding regrasMomentumPersistente_def Let_def
  by (auto simp add: min_le_iff_disj)

lemma regressaoRapido_r2_nonneg: "0 \<le> snd (regressaoRapido pontos)"
  unfolding regressaoRapido_def Let_def by simp

lemma hurstLocal_r2_nonneg: "0 \<le> snd (hurstLocal ticks h)"
  by (simp add: hurstLocal_def calcularHurstRapido_def Let_def regressaoRapido_r2_nonneg)

lemma forcaDe_nonneg: "0 \<le> forcaDe ticks"
  unfolding forcaDe_def Let_def by simp

lemma eficienciaDe_nonneg: "0 \<le> eficienciaDe xs"
  unfolding eficienciaDe_def Let_def by simp

lemma momentum_persistente_conf:
  "0 \<le> confianca (momentumPersistentStrategy ticks h)
   \<and> confianca (momentumPersistentStrategy ticks h) \<le> 1"
proof (cases "length ticks < 20")
  case True
  then show ?thesis
    by (simp add: momentumPersistentStrategy_def defaultMomentumPersistente_def)
next
  case False
  then have "20 \<le> length ticks" by simp
  from momentumPersistentStrategy_shape [OF this, of h]
  obtain m a b c where
    eq: "momentumPersistentStrategy ticks h = regrasMomentumPersistente m a b c"
    and "hurst m = fst (hurstLocal ticks h)"
    and "r2 m = snd (hurstLocal ticks h)"
    and "isPersistente m = (0.58 < fst (hurstLocal ticks h))"
    and "forca m = forcaDe ticks"
    and "eficiencia m = eficienciaDe (slice_last 15 ticks)"
    by blast
  then have "isPersistente m \<longrightarrow> 0.5 \<le> hurst m" "0 \<le> r2 m" "0 \<le> forca m"
    "0 \<le> eficiencia m"
    by (simp_all add: hurstLocal_r2_nonneg forcaDe_nonneg eficienciaDe_nonneg)
  then show ?thesis unfolding eq by (rule regras_conf)
qed

subsection \<open>Input shorter than a detector's minimum\<close>

text \<open>
  C4. A price list shorter than the detector's minimum length (20 for mean reversion, 15
  for confirmed momentum, 50 for the Hurst detector, 20 for persistent momentum, with or
  without a caller-supplied Hurst value) gives the signal \<open>HOLD\<close> with confidence 0.
\<close>

theorem short_input_holds:
  "(length ticks < 20 \<longrightarrow>
      sinal (estrategiaMeanReversion ticks) = HOLD \<and> confianca (estrategiaMeanReversion ticks) = 0)
   \<and> (length ticks < 15 \<longrightarrow>
      sinal (estrategiaMomentumConfirmado ticks) = HOLD
      \<and> confianca (estrategiaMomentumConfirmado ticks) = 0)
   \<and> (length ticks < 50 \<longrightarrow>
      sinal (estrategiaHurst ticks) = HOLD \<and> confianca (estrategiaHurst ticks) = 0)
   \<and> (length ticks < 20 \<longrightarrow>
      sinal (momentumPersistentStrategy ticks hurstHistorico) = HOLD
      \<and> confianca (momentumPersistentStrategy ticks hurstHistorico) = 0)"
  by (simp add: estrategiaMeanReversion_def defaultMeanReversion_def
      estrategiaMomentumConfirmado_def defaultMomentumConfirmado_def
      estrategiaHurst_def defaultHurst_def
      momentumPersistentStrategy_def defaultMomentumPersistente_def)

theorem short_input_holds_witness:
  "length [100, 101, 100.5 :: real] < 15
   \<and> sinal (estrategiaMeanReversion [100, 101, 100.5]) = HOLD
   \<and> confianca (estrategiaMeanReversion [100, 101, 100.5]) = 0
   \<and> sinal (estrategiaMomentumConfirmado [100, 101, 100.5]) = HOLD
   \<and> confianca (estrategiaMomentumConfirmado [100, 101, 100.5]) = 0
   \<and> sinal (estrategiaHurst [100, 101, 100.5]) = HOLD
   \<and> confianca (estrategiaHurst [100, 101, 100.5]) = 0
   \<and> sinal (momentumPersistentStrategy [100, 101, 100.5] (Some 0.7)) = HOLD
   \<and> confianca (momentumPersistentStrategy [100, 101, 100.5] (Some 0.7)) = 0"
  using short_input_holds [of "[100, 101, 100.5]" "Some 0.7"] by simp

subsection \<open>The lateral-market flag\<close>


subsection \<open>Confidence range\<close>

text \<open>
  C8. Whatever the price list (and, for persistent momentum, whatever Hurst value the
  caller supplies), each of the four detectors returns a confidence between 0 and 1.
\<close>

theorem confidence_in_unit_interval:
  "0 \<le> confianca (estrategiaMeanReversion ticks)
   \<and> confianca (estrategiaMeanReversion ticks) \<le> 1
   \<and> 0 \<le> confianca (estrategiaMomentumConfirmado ticks)
   \<and> confianca (estrategiaMomentumConfirmado ticks) \<le> 1
   \<and> 0 \<le> confianca (estrategiaHurst ticks)
   \<and> confianca (estrategiaHurst ticks) \<le> 1
   \<and> 0 \<le> confianca (momentumPersistentStrategy ticks h)
   \<and> confianca (momentumPersistentStrategy ticks h) \<le> 1"
  using mean_reversion_conf [of ticks] momentum_confirmado_conf [of ticks]
    hurst_conf [of ticks] momentum_persistente_conf [of ticks h]
  by blast

subsection \<open>Persistent momentum between 20 and 49 ticks\<close>

text \<open>
  C10. With at least 20 and fewer than 50 prices and no caller-supplied Hurst value, the
  persistent-momentum detector returns \<open>HOLD\<close> with confidence 0: the Hurst value stays
  at its default 0.5, which is not above 0.58.
\<close>

theorem momentum_persistent_default_hurst_holds:
  assumes "20 \<le> length ticks" and "length ticks < 50"
  shows "sinal (momentumPersistentStrategy ticks None) = HOLD
         \<and> confianca (momentumPersistentStrategy ticks None) = 0"
proof -
  from momentumPersistentStrategy_shape [OF assms(1), of None]
  obtain m a b c where
    eq: "momentumPersistentStrategy ticks None = regrasMomentumPersistente m a b c"
    and p: "isPersistente m = (0.58 < fst (hurstLocal ticks None))"
    by blast
  from p assms(2) have "\<not> isPersistente m" by (simp add: hurstLocal_short)
  then show ?thesis unfolding eq by (rule regras_not_persistente)
qed

theorem momentum_persistent_default_hurst_holds_witness:
  "20 \<le> length [100, 100.2, 100.4, 100.7, 100.9, 101.2, 101.4, 101.5, 101.9, 102.0,
                 102.3, 102.6, 102.8, 103.1, 103.3, 103.6, 103.8, 104.1, 104.3, 104.6 :: real]
   \<and> length [100, 100.2, 100.4, 100.7, 100.9, 101.2, 101.4, 101.5, 101.9, 102.0,
             102.3, 102.6, 102.8, 103.1, 103.3, 103.6, 103.8, 104.1, 104.3, 104.6 :: real] < 50
   \<and> sinal (momentumPersistentStrategy
        [100, 100.2, 100.4, 100.7, 100.9, 101.2, 101.4, 101.5, 101.9, 102.0,
         102.3, 102.6, 102.8, 103.1, 103.3, 103.6, 103.8, 104.1, 104.3, 104.6] None) = HOLD
   \<and> confianca (momentumPersistentStrategy
        [100, 100.2, 100.4, 100.7, 100.9, 101.2, 101.4, 101.5, 101.9, 102.0,
         102.3, 102.6, 102.8, 103.1, 103.3, 103.6, 103.8, 104.1, 104.3, 104.6] None) = 0"
  using momentum_persistent_default_hurst_holds
    [of "[100, 100.2, 100.4, 100.7, 100.9, 101.2, 101.4, 101.5, 101.9, 102.0,
          102.3, 102.6, 102.8, 103.1, 103.3, 103.6, 103.8, 104.1, 104.3, 104.6]"]
  by simp

section \<open>Properties of the rescaled-range estimators\<close>

subsection \<open>Constant series\<close>

lemma map_filter_all_None:
  "(\<And>x. x \<in> set xs \<Longrightarrow> f x = None) \<Longrightarrow> List.map_filter f xs = []"
  by (induction xs) (simp_all add: List.map_filter_simps)

lemma retornosLog_replicate:
  "0 < c \<Longrightarrow> retornosLog (replicate n c) = replicate (n - 1) (Some 0)"
proof (induction n)
  case 0
  then show ?case by simp
next
  case (Suc n)
  then show ?case by (cases n) (simp_all add: logRetorno_def)
qed

lemma retornosLogRapido_replicate:
  "0 < c \<Longrightarrow> retornosLogRapido (replicate n c) = replicate (n - 1) 0"
proof (induction n)
  case 0
  then show ?case by simp
next
  case (Suc n)
  then show ?case by (cases n) (simp_all add: logRetorno_def)
qed

lemma those_replicate_Some: "those (replicate k (Some x)) = Some (replicate k x)"
  by (induction k) simp_all

lemma semVariacao_zeros: "semVariacao (replicate k (Some 0))"
  by (simp add: semVariacao_def those_replicate_Some sum_list_replicate)

lemma zeros_sum: "set w \<subseteq> {0::real} \<Longrightarrow> sum_list w = 0"
  by (induction w) simp_all

lemma zeros_squares: "set w \<subseteq> {0::real} \<Longrightarrow> sum_list (map (\<lambda>v. v * v) w) = 0"
  by (induction w) simp_all

lemma rsJanelaRapido_zeros: "set w \<subseteq> {0} \<Longrightarrow> rsJanelaRapido scale w = None"
  by (simp add: rsJanelaRapido_def Let_def zeros_sum zeros_squares)

lemma janelas_subset: "w \<in> set (janelas scale difs) \<Longrightarrow> set w \<subseteq> set difs"
  by (auto simp add: janelas_def dest!: in_set_takeD in_set_dropD)

lemma pontoEscalaRapido_zeros:
  assumes "set difs \<subseteq> {0}"
  shows "pontoEscalaRapido difs scale = None"
proof -
  have "List.map_filter (rsJanelaRapido scale) (janelas scale difs) = []"
  proof (rule map_filter_all_None)
    fix w assume "w \<in> set (janelas scale difs)"
    then have "set w \<subseteq> {0}" using janelas_subset assms by blast
    then show "rsJanelaRapido scale w = None" by (rule rsJanelaRapido_zeros)
  qed
  then show ?thesis by (simp add: pontoEscalaRapido_def)
qed

lemma pontosRapido_zeros: "set difs \<subseteq> {0} \<Longrightarrow> pontosRapido difs = []"
  unfolding pontosRapido_def
  by (rule map_filter_all_None) (rule pontoEscalaRapido_zeros)

lemma regressaoRapido_few: "length pontos < 2 \<Longrightarrow> regressaoRapido pontos = (0.5, 0)"
  by (simp add: regressaoRapido_def)

lemma regressaoHurst_few: "length pontos < 3 \<Longrightarrow> regressaoHurst pontos = (0.5, 0)"
  by (simp add: regressaoHurst_def)

lemma calcularHurstRapido_constant:
  assumes "0 < c"
  shows "calcularHurstRapido (replicate n c) = (0.5, 0)"
proof -
  have "pontosRapido (replicate (n - 1) 0) = []"
    by (rule pontosRapido_zeros) (simp add: set_replicate_conv_if)
  then show ?thesis
    using assms
    by (simp add: calcularHurstRapido_def retornosLogRapido_replicate regressaoRapido_few)
qed

lemma estrategiaHurst_constant:
  assumes "0 < c"
  shows "estrategiaHurst (replicate n c)
           = (if n < 50 then defaultHurst else defaultHurst\<lparr>razao := SemVariacao\<rparr>)"
  using assms
  by (simp add: estrategiaHurst_def retornosLog_replicate semVariacao_zeros)

text \<open>
  C6. On a constant series of a positive price, of any length, both estimators return
  the neutral estimate: \<open>estrategiaHurst\<close> returns its default object (all fields
  literals: exponent 0.5, fit quality 0, signal \<open>HOLD\<close>), with the rationale replaced
  from 50 ticks on, and \<open>calcularHurstRapido\<close> returns \<open>(0.5, 0)\<close>. Both models are
  total functions and no division by zero or logarithm of a non-positive number is met
  on the way: every return is \<open>ln 1 = 0\<close>.
\<close>

theorem constant_series_neutral:
  assumes "0 < c"
  shows "estrategiaHurst (replicate n c)
           = (if n < 50 then defaultHurst else defaultHurst\<lparr>razao := SemVariacao\<rparr>)
         \<and> expoente (estrategiaHurst (replicate n c)) = 0.5
         \<and> hurst_estrategia_result.r2 (estrategiaHurst (replicate n c)) = 0
         \<and> sinal (estrategiaHurst (replicate n c)) = HOLD
         \<and> calcularHurstRapido (replicate n c) = (0.5, 0)"
  using assms
  by (simp add: estrategiaHurst_constant calcularHurstRapido_constant defaultHurst_def)

theorem constant_series_neutral_witness:
  "(0::real) < 100
   \<and> estrategiaHurst (replicate 60 100) = defaultHurst\<lparr>razao := SemVariacao\<rparr>
   \<and> expoente (estrategiaHurst (replicate 60 100)) = 0.5
   \<and> hurst_estrategia_result.r2 (estrategiaHurst (replicate 60 100)) = 0
   \<and> sinal (estrategiaHurst (replicate 60 100)) = HOLD
   \<and> calcularHurstRapido (replicate 60 100) = (0.5, 0)"
  using constant_series_neutral [of 100 60] by (simp add: defaultHurst_def)

subsection \<open>Fewer points than the regression asks for\<close>

lemma estrategiaHurst_estimate:
  "expoente (estrategiaHurst ticks)
     = (if length ticks < 50 \<or> semVariacao (retornosLog ticks) then 0.5
        else fst (regressaoHurst (pontosHurst (retornosLog ticks))))
   \<and> hurst_estrategia_result.r2 (estrategiaHurst ticks)
     = (if length ticks < 50 \<or> semVariacao (retornosLog ticks) then 0
        else snd (regressaoHurst (pontosHurst (retornosLog ticks))))"
proof (cases "length ticks < 50 \<or> semVariacao (retornosLog ticks)")
  case True
  then show ?thesis by (auto simp add: estrategiaHurst_def defaultHurst_def)
next
  case False
  obtain e rr where eq: "regressaoHurst (pontosHurst (retornosLog ticks)) = (e, rr)"
    by (cases "regressaoHurst (pontosHurst (retornosLog ticks))")
  from False eq show ?thesis
    unfolding estrategiaHurst_def Let_def
    by simp
qed

lemma replicate_numeral: "replicate (numeral k) x = x # replicate (pred_numeral k) x"
  by (simp add: numeral_eq_Suc)

lemma map_filter_length: "length (List.map_filter f xs) \<le> length xs"
  by (induction xs) (simp_all add: List.map_filter_simps split: option.split)

lemma those_zeros:
  "set w \<subseteq> {Some 0} \<Longrightarrow> those w = Some (replicate (length w) (0::real))"
  by (induction w) auto

lemma rsJanela_zeros: "set w \<subseteq> {Some 0} \<Longrightarrow> rsJanela scale w = None"
  by (simp add: rsJanela_def Let_def those_zeros sum_list_replicate)

text \<open>
  A series for \<open>estrategiaHurst\<close> that reaches the regression with fewer than three
  points: 46 equal prices, then 2, 1, 2, 1. Only the last four returns are not 0, so
  every window of the scales 11 and 15 is flat.
\<close>

lemma escalas_8_16: "escalas minScale 16 = [8, 11, 15]"
  by (simp add: escalas.simps minScale_def)

lemma retornos_quase_constante:
  "retornosLog (replicate 46 1 @ [2, 1, 2, 1])
   = replicate 45 (Some 0) @ [Some (ln 2), Some (- ln 2), Some (ln 2), Some (- ln 2)]"
  by (simp add: replicate_numeral logRetorno_def ln_div)

lemma janelas_15_quase_constante:
  assumes "length t = 4"
  shows "janelas 15 (replicate 45 x @ t) = [replicate 15 x, replicate 15 x, replicate 15 x]"
  using assms by (simp add: janelas_def upt_rec)

lemma ponto_15_quase_constante:
  assumes "length t = 4"
  shows "pontoEscala (replicate 45 (Some 0) @ t) 15 = None"
proof -
  have "List.map_filter (rsJanela 15) (janelas 15 (replicate 45 (Some 0) @ t)) = []"
    unfolding janelas_15_quase_constante [OF assms]
    by (rule map_filter_all_None) (auto intro!: rsJanela_zeros)
  then show ?thesis by (simp add: pontoEscala_def)
qed

lemma pontos_quase_constante:
  "length (pontosHurst (retornosLog (replicate 46 1 @ [2, 1, 2, 1]))) < 3"
proof -
  let ?t = "[Some (ln 2), Some (- ln 2), Some (ln 2), Some (- ln 2)]"
  let ?r = "replicate 45 (Some 0) @ ?t"
  have l: "length ?r div 3 = 16" by simp
  have "pontoEscala ?r 15 = None"
    by (rule ponto_15_quase_constante) simp
  then have "pontosHurst ?r = List.map_filter (pontoEscala ?r) [8, 11]"
    unfolding pontosHurst_def l escalas_8_16
    by (simp only: List.map_filter_simps split: option.split) simp
  moreover have "length (List.map_filter (pontoEscala ?r) [8, 11]) \<le> length [8, 11 :: nat]"
    by (rule map_filter_length)
  ultimately show ?thesis unfolding retornos_quase_constante by simp
qed

lemma those_append_Some:
  "those (replicate k (Some x) @ ys) = map_option (\<lambda>zs. replicate k x @ zs) (those ys)"
  by (induction k) (simp_all add: option.map_comp comp_def option.map_ident)

lemma ln_2_lower: "1 / 4 \<le> ln (2::real)"
proof -
  have "(1 / 2 :: real) - (1 / 2)\<^sup>2 \<le> ln (1 + 1 / 2)"
    by (rule ln_one_plus_pos_lower_bound) simp_all
  then have "1 / 4 \<le> ln (3 / 2 :: real)" by (simp add: power2_eq_square)
  moreover have "ln (3 / 2) \<le> ln (2::real)" by simp
  ultimately show ?thesis by (rule order_trans)
qed

lemma variacao_quase_constante:
  "\<not> semVariacao (retornosLog (replicate 46 1 @ [2, 1, 2, 1]))"
proof -
  have "(1 / 4 :: real) * (1 / 4) \<le> ln 2 * ln 2"
    using ln_2_lower by (intro mult_mono) simp_all
  then have "(1 :: real) / 10 ^ 12
      \<le> (ln 2 * ln 2 + (ln 2 * ln 2 + (ln 2 * ln 2 + ln 2 * ln 2))) / 49"
    by simp
  then show ?thesis
    unfolding retornos_quase_constante
    by (simp add: semVariacao_def those_append_Some sum_list_replicate)
qed

text \<open>
  C5, as the code has it. \<open>estrategiaHurst\<close> keeps the neutral estimate (exponent 0.5,
  fit quality 0) whenever fewer than 3 regression points were collected;
  \<open>calcularHurstRapido\<close> returns the neutral estimate whenever fewer than 2 points
  were collected, and fits a line from 2 points on.
\<close>

theorem few_points_neutral:
  "(length (pontosHurst (retornosLog ticks)) < 3 \<longrightarrow>
      expoente (estrategiaHurst ticks) = 0.5
      \<and> hurst_estrategia_result.r2 (estrategiaHurst ticks) = 0)
   \<and> (length (pontosRapido (retornosLogRapido ticks')) < 2 \<longrightarrow>
      calcularHurstRapido ticks' = (0.5, 0))"
  using estrategiaHurst_estimate [of ticks]
  by (simp add: regressaoHurst_few regressaoRapido_few calcularHurstRapido_def Let_def)

theorem few_points_neutral_witness:
  "50 \<le> length (replicate 46 1 @ [2, 1, 2, 1 :: real])
   \<and> \<not> semVariacao (retornosLog (replicate 46 1 @ [2, 1, 2, 1]))
   \<and> length (pontosHurst (retornosLog (replicate 46 1 @ [2, 1, 2, 1]))) < 3
   \<and> expoente (estrategiaHurst (replicate 46 1 @ [2, 1, 2, 1])) = 0.5
   \<and> hurst_estrategia_result.r2 (estrategiaHurst (replicate 46 1 @ [2, 1, 2, 1])) = 0
   \<and> length (pontosRapido (retornosLogRapido (replicate 60 100))) < 2
   \<and> calcularHurstRapido (replicate 60 100) = (0.5, 0)"
proof -
  have "pontosRapido (retornosLogRapido (replicate 60 100)) = []"
    by (simp add: retornosLogRapido_replicate pontosRapido_zeros)
  then show ?thesis
    using few_points_neutral [of "replicate 46 1 @ [2, 1, 2, 1]" "replicate 60 100"]
      pontos_quase_constante variacao_quase_constante
    by simp
qed

subsection \<open>The fast estimate from two points\<close>

text \<open>
  The series: 19 prices 0 (skipped by the guard \<^verbatim>\<open>ticks[i - 1] > 0\<close>), then
  1, 2, 1, 2, \<dots>, 1. Its 30 returns alternate between \<open>ln 2\<close> and \<open>- ln 2\<close>,
  so only the scales 8 and 12 are tried, every window has R/S = 1, and the two points
  are \<open>(0, ln 8)\<close> and \<open>(0, ln 12)\<close>.
\<close>

lemma logRetorno_1_2: "logRetorno 1 2 = Some (ln 2)"
  by (simp add: logRetorno_def)

lemma logRetorno_2_1: "logRetorno 2 1 = Some (- ln 2)"
  by (simp add: logRetorno_def ln_div)

lemma retornos_alternados:
  "retornosLogRapido (replicate 19 0 @ concat (replicate 15 [1, 2]) @ [1])
   = [ln 2, - ln 2, ln 2, - ln 2, ln 2, - ln 2, ln 2, - ln 2, ln 2, - ln 2,
      ln 2, - ln 2, ln 2, - ln 2, ln 2, - ln 2, ln 2, - ln 2, ln 2, - ln 2,
      ln 2, - ln 2, ln 2, - ln 2, ln 2, - ln 2, ln 2, - ln 2, ln 2, - ln 2]"
  by (simp add: replicate_numeral logRetorno_1_2 logRetorno_2_1)

lemma rsJanelaRapido_zero_mean:
  assumes "sum_list w = 0" and "somasAcumuladas 0 w = cums" and "cums \<noteq> []"
    and "sqrt (sum_list (map (\<lambda>v. v * v) w) / real scale) = S"
    and "Max (set cums) = mx" and "Min (set cums) = mn"
  shows "rsJanelaRapido scale w
           = (if S > 0 \<and> mx - mn > 0 then Some ((mx - mn) / S) else None)"
  using assms unfolding rsJanelaRapido_def Let_def isFinite_def
  by simp

lemma rs_janela_8:
  fixes L :: real assumes "0 < L"
  shows "rsJanelaRapido 8 [L, - L, L, - L, L, - L, L, - L] = Some 1"
proof -
  have "rsJanelaRapido 8 [L, - L, L, - L, L, - L, L, - L]
          = (if L > 0 \<and> L - 0 > 0 then Some ((L - 0) / L) else None)"
  proof (rule rsJanelaRapido_zero_mean)
    show "sum_list [L, - L, L, - L, L, - L, L, - L] = 0" by simp
    show "somasAcumuladas 0 [L, - L, L, - L, L, - L, L, - L] = [L, 0, L, 0, L, 0, L, 0]" by simp
    show "[L, 0, L, 0, L, 0, L, 0] \<noteq> []" by simp
    show "sqrt (sum_list (map (\<lambda>v. v * v) [L, - L, L, - L, L, - L, L, - L]) / real 8) = L"
      using assms by simp
    show "Max (set [L, 0, L, 0, L, 0, L, 0]) = L" using assms by simp
    show "Min (set [L, 0, L, 0, L, 0, L, 0]) = 0" using assms by simp
  qed
  with assms show ?thesis by simp
qed

lemma rs_janela_12:
  fixes L :: real assumes "0 < L"
  shows "rsJanelaRapido 12 [L, - L, L, - L, L, - L, L, - L, L, - L, L, - L] = Some 1"
proof -
  have "rsJanelaRapido 12 [L, - L, L, - L, L, - L, L, - L, L, - L, L, - L]
          = (if L > 0 \<and> L - 0 > 0 then Some ((L - 0) / L) else None)"
  proof (rule rsJanelaRapido_zero_mean)
    show "sum_list [L, - L, L, - L, L, - L, L, - L, L, - L, L, - L] = 0" by simp
    show "somasAcumuladas 0 [L, - L, L, - L, L, - L, L, - L, L, - L, L, - L]
            = [L, 0, L, 0, L, 0, L, 0, L, 0, L, 0]"
      by simp
    show "[L, 0, L, 0, L, 0, L, 0, L, 0, L, 0] \<noteq> []" by simp
    show "sqrt (sum_list (map (\<lambda>v. v * v) [L, - L, L, - L, L, - L, L, - L, L, - L, L, - L]) / real 12)
            = L"
      using assms by simp
    show "Max (set [L, 0, L, 0, L, 0, L, 0, L, 0, L, 0]) = L" using assms by simp
    show "Min (set [L, 0, L, 0, L, 0, L, 0, L, 0, L, 0]) = 0" using assms by simp
  qed
  with assms show ?thesis by simp
qed

lemma janelas_8:
  fixes L :: real
  shows "janelas 8 
           [L, - L, L, - L, L, - L, L, - L, L, - L, L, - L, L, - L, L, - L, L, - L, L, - L, L, - L, L, - L, L, - L, L, - L, L, - L]
         = [[L, - L, L, - L, L, - L, L, - L], [L, - L, L, - L, L, - L, L, - L],
            [L, - L, L, - L, L, - L, L, - L]]"
  by (simp add: janelas_def upt_rec)

lemma janelas_12:
  fixes L :: real
  shows "janelas 12 
           [L, - L, L, - L, L, - L, L, - L, L, - L, L, - L, L, - L, L, - L, L, - L, L, - L, L, - L, L, - L, L, - L, L, - L, L, - L]
         = [[L, - L, L, - L, L, - L, L, - L, L, - L, L, - L],
            [L, - L, L, - L, L, - L, L, - L, L, - L, L, - L]]"
  by (simp add: janelas_def upt_rec)

lemma ponto_8:
  fixes L :: real assumes "0 < L"
  shows "pontoEscalaRapido 
           [L, - L, L, - L, L, - L, L, - L, L, - L, L, - L, L, - L, L, - L, L, - L, L, - L, L, - L, L, - L, L, - L, L, - L, L, - L] 8
         = Some (0, ln 8)"
  using assms
  by (simp add: pontoEscalaRapido_def janelas_8 rs_janela_8 List.map_filter_simps isFinite_def)

lemma ponto_12:
  fixes L :: real assumes "0 < L"
  shows "pontoEscalaRapido 
           [L, - L, L, - L, L, - L, L, - L, L, - L, L, - L, L, - L, L, - L, L, - L, L, - L, L, - L, L, - L, L, - L, L, - L, L, - L] 12
         = Some (0, ln 12)"
  using assms
  by (simp add: pontoEscalaRapido_def janelas_12 rs_janela_12 List.map_filter_simps isFinite_def)

lemma ponto_outros:
  fixes L :: real
  shows "pontoEscalaRapido 
           [L, - L, L, - L, L, - L, L, - L, L, - L, L, - L, L, - L, L, - L, L, - L, L, - L, L, - L, L, - L, L, - L, L, - L, L, - L] 16
         = None"
    "pontoEscalaRapido 
           [L, - L, L, - L, L, - L, L, - L, L, - L, L, - L, L, - L, L, - L, L, - L, L, - L, L, - L, L, - L, L, - L, L, - L, L, - L] 24
         = None"
    "pontoEscalaRapido 
           [L, - L, L, - L, L, - L, L, - L, L, - L, L, - L, L, - L, L, - L, L, - L, L, - L, L, - L, L, - L, L, - L, L, - L, L, - L] 32
         = None"
  by (simp_all add: pontoEscalaRapido_def)

lemma pontos_alternados:
  fixes L :: real assumes "0 < L"
  shows "pontosRapido 
           [L, - L, L, - L, L, - L, L, - L, L, - L, L, - L, L, - L, L, - L, L, - L, L, - L, L, - L, L, - L, L, - L, L, - L, L, - L]
         = [(0, ln 8), (0, ln 12)]"
  using assms
  by (simp add: pontosRapido_def List.map_filter_simps ponto_8 ponto_12 ponto_outros)

lemma regressao_dois_pontos:
  fixes x1 x2 :: real
  assumes "1 / 10 ^ 10 \<le> (x1 - x2)\<^sup>2"
  shows "regressaoRapido [(0, x1), (0, x2)] = (0.1, 0)"
proof -
  have "2 * (x1 * x1 + x2 * x2) - (x1 + x2) * (x1 + x2) = (x1 - x2)\<^sup>2"
    by (simp add: power2_eq_square algebra_simps)
  with assms have "\<not> \<bar>2 * (x1 * x1 + x2 * x2) - (x1 + x2) * (x1 + x2)\<bar> < 1 / 10 ^ 10"
    by simp
  then show ?thesis
    unfolding regressaoRapido_def Let_def
    by simp
qed

lemma ln_12_8: "1 / 4 \<le> ln 12 - ln (8::real)"
proof -
  have "ln (12 / 8 :: real) = ln 12 - ln 8"
    by (rule ln_divide_pos) simp_all
  then have "ln 12 - ln (8::real) = ln (1 + 1 / 2)"
    by simp
  moreover have "(1 / 2 :: real) - (1 / 2)\<^sup>2 \<le> ln (1 + 1 / 2)"
    by (rule ln_one_plus_pos_lower_bound) simp_all
  ultimately show ?thesis by (simp add: power2_eq_square)
qed

lemma regressao_8_12: "regressaoRapido [(0, ln 8), (0, ln 12)] = (0.1, 0)"
proof (rule regressao_dois_pontos)
  have "(1 / 4)\<^sup>2 \<le> (ln 12 - ln (8::real))\<^sup>2"
    using ln_12_8 by (intro power_mono) simp_all
  also have "(ln 12 - ln (8::real))\<^sup>2 = (ln 8 - ln 12)\<^sup>2"
    by (rule power2_commute)
  finally have "(1 / 4)\<^sup>2 \<le> (ln 8 - ln (12::real))\<^sup>2" .
  moreover have "(1 / 10 ^ 10 :: real) \<le> (1 / 4)\<^sup>2" by (simp add: power2_eq_square)
  ultimately show "1 / 10 ^ 10 \<le> (ln 8 - ln (12::real))\<^sup>2" by (rule order_trans [rotated])
qed

lemma regras_estimate:
  "hurst (regrasMomentumPersistente m a b c) = hurst m"
  "r2 (regrasMomentumPersistente m a b c) = r2 m"
  by (simp_all add: regrasMomentumPersistente_def Let_def)

text \<open>
  C5 as stated fails for the fast estimator: on this series it collects two points and
  returns the Hurst value 0.1, fitted from them (slope 0, clamped), not the neutral 0.5;
  \<open>momentumPersistentStrategy\<close> reports that value.
\<close>

theorem fast_estimate_from_two_points:
  "length (pontosRapido (retornosLogRapido
      (replicate 19 0 @ concat (replicate 15 [1, 2]) @ [1]))) = 2
   \<and> calcularHurstRapido (replicate 19 0 @ concat (replicate 15 [1, 2]) @ [1]) = (0.1, 0)
   \<and> calcularHurstRapido (replicate 19 0 @ concat (replicate 15 [1, 2]) @ [1]) \<noteq> (0.5, 0)
   \<and> hurst (momentumPersistentStrategy
        (replicate 19 0 @ concat (replicate 15 [1, 2]) @ [1]) None) = 0.1"
proof -
  let ?T = "replicate 19 0 @ concat (replicate 15 [1, 2]) @ [1] :: real list"
  have p: "pontosRapido (retornosLogRapido ?T) = [(0, ln 8), (0, ln 12)]"
    unfolding retornos_alternados by (rule pontos_alternados) simp
  have c: "calcularHurstRapido ?T = (0.1, 0)"
    unfolding calcularHurstRapido_def Let_def
    unfolding p
    unfolding retornos_alternados
    by (simp add: regressao_8_12)
  have len: "length ?T = 50" by (simp add: replicate_numeral)
  then have "20 \<le> length ?T" by simp
  from momentumPersistentStrategy_shape [OF this, of None]
  obtain m a b c' where
    "momentumPersistentStrategy ?T None = regrasMomentumPersistente m a b c'"
    "hurst m = fst (hurstLocal ?T None)"
    by blast
  moreover have "hurstLocal ?T None = calcularHurstRapido ?T"
    unfolding hurstLocal_def len by simp
  ultimately have "hurst (momentumPersistentStrategy ?T None) = fst (calcularHurstRapido ?T)"
    by (simp only: regras_estimate)
  with p c show ?thesis by simp
qed

section \<open>Properties of the reconciler\<close>

lemma handleTradeResult_open [simp]: "handleTradeResult mm p k Open s = s"
  by (simp add: handleTradeResult_def)

lemma handleTradeResult_io [simp]:
  "polled (handleTradeResult mm p k st s) = polled s"
  "authorizeCalls (handleTradeResult mm p k st s) = authorizeCalls s"
  by (simp_all add: handleTradeResult_def Let_def clearTradeTimeout_def)

lemma authorize_io [simp]:
  "retryToGetLastTradeCount (authorize br s) = retryToGetLastTradeCount s"
  "polled (authorize br s) = polled s"
  "authorizeCalls (authorize br s) = authorizeCalls s + 1"
  "lastContractId (authorize br s) = lastContractId s"
  by (simp_all add: authorize_def Let_def)

subsection \<open>A poll that finds the contract still open\<close>




subsection \<open>A second settlement\<close>

text \<open>
  C2 as stated fails: the settlement of contract 7 is pushed twice. After the first push
  the reconciler is idle (no pending contract, not trading); the second push is applied
  all the same: a second record reaches the ledger, the win streak is 2 and the money
  manager has been updated once more.
\<close>

theorem second_settlement_counterexample:
  "lastContractId (onContractUpdate fixedManager (Some wonContract) placedState) = None
   \<and> \<not> isTrading (onContractUpdate fixedManager (Some wonContract) placedState)
   \<and> length (savedTrades (onContractUpdate fixedManager (Some wonContract) placedState)) = 1
   \<and> consecutiveWins (onContractUpdate fixedManager (Some wonContract) placedState) = 1
   \<and> length (savedTrades (onContractUpdate fixedManager (Some wonContract)
        (onContractUpdate fixedManager (Some wonContract) placedState))) = 2
   \<and> consecutiveWins (onContractUpdate fixedManager (Some wonContract)
        (onContractUpdate fixedManager (Some wonContract) placedState)) = 2
   \<and> moneyManager (onContractUpdate fixedManager (Some wonContract)
        (onContractUpdate fixedManager (Some wonContract) placedState))
      \<noteq> moneyManager (onContractUpdate fixedManager (Some wonContract) placedState)"
  by (simp add: onContractUpdate_def handleTradeResult_def Let_def clearTradeTimeout_def
      placedState_def wonContract_def fixedManager_def fixedUpdate_def balanceOf_def
      profitDe_def stakeDe_def statusDe_def)

text \<open>
  C2, as the code has it. \<open>handleTradeResult\<close> looks neither at a contract id nor at
  whether a contract is pending: every event with a settled status is applied in full
  (one more record in the ledger, one more call of \<open>updateLastTrade\<close>, the win streak
  updated), in whatever state it arrives, and leaves the reconciler idle. What changes
  nothing is an event with status open, a poll without a contract id, and a watchdog poll
  once a settlement has cleared the contract.
\<close>

theorem settlement_applied_every_time:
  assumes "status \<noteq> Open"
  shows "savedTrades (handleTradeResult mm p k status s)
           = savedTrades s @
               [\<lparr>isWin = (status = Won), stake = k,
                 profit = (if status = Won then p else - k),
                 balanceAfter = (if status = Won then getCurrentBalance mm (moneyManager s) + p
                                 else getCurrentBalance mm (moneyManager s) - k)\<rparr>]
         \<and> moneyManager (handleTradeResult mm p k status s)
             = updateLastTrade mm (status = Won) (moneyManager s)
         \<and> consecutiveWins (handleTradeResult mm p k status s)
             = (if status = Won then consecutiveWins s + 1 else 0)
         \<and> lastContractId (handleTradeResult mm p k status s) = None
         \<and> \<not> isTrading (handleTradeResult mm p k status s)
         \<and> \<not> tradeTimeoutSet (handleTradeResult mm p k status s)
         \<and> watchdogTick mm br (handleTradeResult mm p k status s)
             = handleTradeResult mm p k status s
         \<and> getLastTradeResult mm br None s = s
         \<and> handleTradeResult mm p k Open s = s"
  using assms
  by (simp add: handleTradeResult_def Let_def clearTradeTimeout_def watchdogTick_def
      getLastTradeResult.simps)

theorem settlement_applied_every_time_witness:
  "Won \<noteq> Open
   \<and> savedTrades (handleTradeResult fixedManager 0.31 0.35 Won
        (handleTradeResult fixedManager 0.31 0.35 Won placedState))
      = savedTrades (handleTradeResult fixedManager 0.31 0.35 Won placedState) @
          [\<lparr>isWin = True, stake = 0.35, profit = 0.31,
            balanceAfter = getCurrentBalance fixedManager
              (moneyManager (handleTradeResult fixedManager 0.31 0.35 Won placedState))
              + 0.31\<rparr>]
   \<and> lastContractId (handleTradeResult fixedManager 0.31 0.35 Won
        (handleTradeResult fixedManager 0.31 0.35 Won placedState)) = None
   \<and> watchdogTick fixedManager brokerOpen
        (handleTradeResult fixedManager 0.31 0.35 Won
          (handleTradeResult fixedManager 0.31 0.35 Won placedState))
      = handleTradeResult fixedManager 0.31 0.35 Won
          (handleTradeResult fixedManager 0.31 0.35 Won placedState)"
proof -
  have h: "Won \<noteq> Open" by simp
  from settlement_applied_every_time
    [where status = Won and mm = fixedManager and p = "0.31" and k = "0.35"
       and s = "handleTradeResult fixedManager 0.31 0.35 Won placedState"
       and br = brokerOpen, OF h]
  show ?thesis by simp
qed

subsection \<open>Authorization failures during a poll\<close>

lemma getLastTradeResult_polls:
  "\<exists>k. polled (getLastTradeResult mm br c s) = polled s @ replicate k (the c)
       \<and> k \<le> 2 - retryToGetLastTradeCount s
       \<and> authorizeCalls (getLastTradeResult mm br c s)
           = authorizeCalls s
             + length (filter (\<lambda>i. pollResult br i (the c) = AuthorizationRequired)
                         [length (polled s) ..< length (polled s) + k])"
proof (induction mm br c s rule: getLastTradeResult.induct)
  case (1 mm br contractId s)
  show ?case
  proof (cases contractId)
    case None
    then show ?thesis by (simp add: getLastTradeResult.simps)
  next
    case (Some cid)
    show ?thesis
    proof (cases "cid = 0 \<or> 2 \<le> retryToGetLastTradeCount s")
      case True
      with Some show ?thesis by (auto simp add: getLastTradeResult.simps)
    next
      case False
      then have nz: "cid \<noteq> 0" and lt: "\<not> 2 \<le> retryToGetLastTradeCount s" by simp_all
      show ?thesis
      proof (cases "pollResult br (length (polled s)) cid")
        case (Resposta data)
        with Some nz lt have "polled (getLastTradeResult mm br contractId s) = polled s @ replicate 1 cid"
          and "authorizeCalls (getLastTradeResult mm br contractId s) = authorizeCalls s"
          by (simp_all add: getLastTradeResult.simps Let_def)
        moreover have "length (filter (\<lambda>i. pollResult br i cid = AuthorizationRequired)
                         [length (polled s) ..< length (polled s) + 1]) = 0"
          using Resposta by simp
        ultimately show ?thesis using Some lt
          by (intro exI [of _ 1]) simp
      next
        case OutroErro
        with Some nz lt have "polled (getLastTradeResult mm br contractId s) = polled s @ replicate 1 cid"
          and "authorizeCalls (getLastTradeResult mm br contractId s) = authorizeCalls s"
          by (simp_all add: getLastTradeResult.simps Let_def)
        moreover have "length (filter (\<lambda>i. pollResult br i cid = AuthorizationRequired)
                         [length (polled s) ..< length (polled s) + 1]) = 0"
          using OutroErro by simp
        ultimately show ?thesis using Some lt
          by (intro exI [of _ 1]) simp
      next
        case AuthorizationRequired
        define s1 where "s1 = authorize br
            (s\<lparr>polled := polled s @ [cid],
               retryToGetLastTradeCount := retryToGetLastTradeCount s + 1\<rparr>)"
        have eq: "getLastTradeResult mm br contractId s = getLastTradeResult mm br contractId s1"
          using Some nz lt AuthorizationRequired
          by (subst getLastTradeResult.simps) (simp add: s1_def)
        from "1.IH" [OF Some nz lt AuthorizationRequired]
        obtain k where
          p: "polled (getLastTradeResult mm br contractId s1) = polled s1 @ replicate k cid"
          and b: "k \<le> 2 - retryToGetLastTradeCount s1"
          and a: "authorizeCalls (getLastTradeResult mm br contractId s1)
                  = authorizeCalls s1
                    + length (filter (\<lambda>i. pollResult br i cid = AuthorizationRequired)
                                [length (polled s1) ..< length (polled s1) + k])"
          unfolding s1_def using Some by auto
        have ps1: "polled s1 = polled s @ [cid]" and as1: "authorizeCalls s1 = authorizeCalls s + 1"
          and rs1: "retryToGetLastTradeCount s1 = retryToGetLastTradeCount s + 1"
          by (simp_all add: s1_def)
        have up: "[length (polled s) ..< length (polled s) + Suc k]
                    = length (polled s) # [length (polled s) + 1 ..< length (polled s) + 1 + k]"
          by (simp add: upt_conv_Cons)
        have "polled (getLastTradeResult mm br contractId s) = polled s @ replicate (Suc k) cid"
          unfolding eq p ps1 by simp
        moreover have "Suc k \<le> 2 - retryToGetLastTradeCount s"
          using b rs1 lt by simp
        moreover have "authorizeCalls (getLastTradeResult mm br contractId s)
           = authorizeCalls s
             + length (filter (\<lambda>i. pollResult br i cid = AuthorizationRequired)
                         [length (polled s) ..< length (polled s) + Suc k])"
          unfolding eq a ps1 as1 up using AuthorizationRequired by simp
        ultimately show ?thesis using Some by (intro exI [of _ "Suc k"]) simp
      qed
    qed
  qed
qed

lemma getLastTradeResult_potencial:
  "lastContractId s = c \<Longrightarrow> potencial (getLastTradeResult mm br c s) \<le> potencial s"
proof (induction mm br c s rule: getLastTradeResult.induct)
  case (1 mm br contractId s)
  show ?case
  proof (cases contractId)
    case None
    then show ?thesis by (simp add: getLastTradeResult.simps)
  next
    case (Some cid)
    show ?thesis
    proof (cases "cid = 0 \<or> 2 \<le> retryToGetLastTradeCount s")
      case True
      with Some show ?thesis by (auto simp add: getLastTradeResult.simps)
    next
      case False
      then have nz: "cid \<noteq> 0" and lt: "\<not> 2 \<le> retryToGetLastTradeCount s" by simp_all
      show ?thesis
      proof (cases "pollResult br (length (polled s)) cid")
        case (Resposta data)
        with Some nz lt show ?thesis
          by (simp add: getLastTradeResult.simps Let_def potencial_def)
      next
        case OutroErro
        with Some nz lt show ?thesis
          by (simp add: getLastTradeResult.simps Let_def potencial_def)
      next
        case AuthorizationRequired
        define s1 where "s1 = authorize br
            (s\<lparr>polled := polled s @ [cid],
               retryToGetLastTradeCount := retryToGetLastTradeCount s + 1\<rparr>)"
        have eq: "getLastTradeResult mm br contractId s = getLastTradeResult mm br contractId s1"
          using Some nz lt AuthorizationRequired
          by (subst getLastTradeResult.simps) (simp add: s1_def)
        have "lastContractId s1 = contractId" using "1.prems" by (simp add: s1_def)
        with "1.IH" [OF Some nz lt AuthorizationRequired]
        have "potencial (getLastTradeResult mm br contractId s1) \<le> potencial s1"
          unfolding s1_def by simp
        moreover have "potencial s1 = potencial s"
          using "1.prems" Some nz lt by (simp add: s1_def potencial_def)
        ultimately show ?thesis unfolding eq by simp
      qed
    qed
  qed
qed

lemma watchdogTick_potencial: "potencial (watchdogTick mm br s) \<le> potencial s"
  by (simp add: watchdogTick_def getLastTradeResult_potencial)

lemma watchdogTicks_potencial: "potencial ((watchdogTick mm br ^^ n) s) \<le> potencial s"
proof (induction n)
  case 0
  then show ?case by simp
next
  case (Suc n)
  have "potencial (watchdogTick mm br ((watchdogTick mm br ^^ n) s))
          \<le> potencial ((watchdogTick mm br ^^ n) s)"
    by (rule watchdogTick_potencial)
  with Suc show ?case by simp
qed


lemma getLastTradeResult_retry_issued:
  assumes "retryToGetLastTradeCount s = 0" and "cid \<noteq> 0"
    and "pollResult br (length (polled s)) cid = AuthorizationRequired"
  shows "length (polled (getLastTradeResult mm br (Some cid) s)) = length (polled s) + 2"
proof -
  define s1 where "s1 = authorize br
      (s\<lparr>polled := polled s @ [cid],
         retryToGetLastTradeCount := retryToGetLastTradeCount s + 1\<rparr>)"
  have eq: "getLastTradeResult mm br (Some cid) s = getLastTradeResult mm br (Some cid) s1"
    using assms by (subst getLastTradeResult.simps) (simp add: s1_def)
  have r1: "retryToGetLastTradeCount s1 = 1" and p1: "polled s1 = polled s @ [cid]"
    using assms by (simp_all add: s1_def)
  have "length (polled (getLastTradeResult mm br (Some cid) s1)) = length (polled s1) + 1"
  proof (cases "pollResult br (length (polled s1)) cid")
    case (Resposta data)
    with r1 assms(2) show ?thesis
      by (subst getLastTradeResult.simps) (simp add: Let_def)
  next
    case AuthorizationRequired
    with r1 assms(2) show ?thesis
      by (subst getLastTradeResult.simps, simp, subst getLastTradeResult.simps, simp)
  next
    case OutroErro
    with r1 assms(2) show ?thesis
      by (subst getLastTradeResult.simps) simp
  qed
  then show ?thesis unfolding eq p1 by simp
qed

lemma getLastTradeResult_no_retry:
  assumes "retryToGetLastTradeCount s = 1" and "cid \<noteq> 0"
    and "pollResult br (length (polled s)) cid = AuthorizationRequired"
  shows "getLastTradeResult mm br (Some cid) s
           = authorize br (s\<lparr>polled := polled s @ [cid], retryToGetLastTradeCount := 2\<rparr>)"
  using assms
  by (subst getLastTradeResult.simps, simp, subst getLastTradeResult.simps,
      simp add: numeral_2_eq_2)

lemma onContractUpdate_potencial: "potencial (onContractUpdate mm d s) \<le> potencial s"
  by (auto simp add: onContractUpdate_def handleTradeResult_def Let_def clearTradeTimeout_def
      potencial_def)

lemma stopBot_potencial: "potencial (stopBot s) \<le> potencial s + 2"
  by (simp add: stopBot_def clearSubscriptions_def Let_def potencial_def)

lemma aplicarEvento_potencial:
  "potencial (aplicarEvento mm br ev s) \<le> potencial s + (if ev = Stop then 2 else 0)"
proof (cases ev)
  case Watchdog
  then show ?thesis by (simp add: watchdogTick_potencial)
next
  case (Push data)
  then show ?thesis by (simp add: onContractUpdate_potencial)
next
  case Stop
  with stopBot_potencial [of s] show ?thesis by simp
qed

lemma executar_potencial:
  "potencial (executar mm br evs s) \<le> potencial s + 2 * length (filter (\<lambda>e. e = Stop) evs)"
  unfolding executar_def
proof (induction evs arbitrary: s)
  case Nil
  then show ?case by simp
next
  case (Cons ev evs)
  have "potencial (foldl (\<lambda>st e. aplicarEvento mm br e st) (aplicarEvento mm br ev s) evs)
          \<le> potencial (aplicarEvento mm br ev s) + 2 * length (filter (\<lambda>e. e = Stop) evs)"
    by (rule Cons.IH)
  also have "\<dots> \<le> potencial s + (if ev = Stop then 2 else 0)
                  + 2 * length (filter (\<lambda>e. e = Stop) evs)"
    using aplicarEvento_potencial [of mm br ev s] by simp
  finally show ?case by (cases "ev = Stop") simp_all
qed

lemma executar_logins:
  "authorizeCalls (executar mm br evs s)
     \<le> authorizeCalls s + (2 - retryToGetLastTradeCount s)
        + 2 * length (filter (\<lambda>e. e = Stop) evs)"
proof -
  have "authorizeCalls (executar mm br evs s) \<le> potencial (executar mm br evs s)"
    by (simp add: potencial_def)
  also have "\<dots> \<le> potencial s + 2 * length (filter (\<lambda>e. e = Stop) evs)"
    by (rule executar_potencial)
  also have "\<dots> \<le> authorizeCalls s + (2 - retryToGetLastTradeCount s)
        + 2 * length (filter (\<lambda>e. e = Stop) evs)"
    by (simp add: potencial_def)
  finally show ?thesis .
qed

lemma exhausted_reached:
  "getLastTradeResult fixedManager brokerUnauthorized (Some 7) placedState = exhaustedState"
  by (simp add: getLastTradeResult.simps placedState_def exhaustedState_def
      brokerUnauthorized_def pollUnauthorized_def authorize_def authFail_def Let_def)

text \<open>
  C3 as stated fails twice. With contract 7 pending and every request rejected for lack
  of authorization, the poll sends two requests and logs in twice: the second rejection
  is followed by a login but by no further request, since the counter has reached 2.
  And the bound of 2 is not one per contract: \<open>stopBot\<close> puts the counter back to 0 and
  leaves the contract and the watchdog in place, so the next firing of the watchdog
  polls contract 7 twice more and logs in twice more, 4 logins in all.
\<close>

theorem authorization_retry_counterexample:
  "pollResult brokerUnauthorized 0 7 = AuthorizationRequired
   \<and> pollResult brokerUnauthorized 1 7 = AuthorizationRequired
   \<and> polled (getLastTradeResult fixedManager brokerUnauthorized (Some 7) placedState) = [7, 7]
   \<and> authorizeCalls (getLastTradeResult fixedManager brokerUnauthorized (Some 7) placedState) = 2
   \<and> lastContractId (watchdogTick fixedManager brokerUnauthorized (stopBot exhaustedState))
       = Some 7
   \<and> polled (watchdogTick fixedManager brokerUnauthorized (stopBot exhaustedState))
       = [7, 7, 7, 7]
   \<and> authorizeCalls (watchdogTick fixedManager brokerUnauthorized (stopBot exhaustedState)) = 4"
proof -
  have "watchdogTick fixedManager brokerUnauthorized (stopBot exhaustedState)
          = exhaustedState\<lparr>isTrading := False, retryToGetLastTradeCount := 2,
              authorizeCalls := 4, polled := [7, 7, 7, 7],
              messages := [MsgErroAutorizar, MsgErroAutorizar, MsgBotParado,
                           MsgErroAutorizar, MsgErroAutorizar]\<rparr>"
    by (simp add: watchdogTick_def stopBot_def clearSubscriptions_def getLastTradeResult.simps
        placedState_def exhaustedState_def brokerUnauthorized_def pollUnauthorized_def
        authorize_def authFail_def Let_def)
  moreover have "polled (getLastTradeResult fixedManager brokerUnauthorized (Some 7) placedState)
      = [7, 7]"
    and "authorizeCalls (getLastTradeResult fixedManager brokerUnauthorized (Some 7) placedState)
      = 2"
    unfolding exhausted_reached by (simp_all add: exhaustedState_def)
  moreover have "pollResult brokerUnauthorized 0 7 = AuthorizationRequired"
    and "pollResult brokerUnauthorized 1 7 = AuthorizationRequired"
    by (simp_all add: brokerUnauthorized_def pollUnauthorized_def)
  ultimately show ?thesis by (simp add: exhaustedState_def placedState_def)
qed

text \<open>
  C3, as the code has it. A poll of contract \<open>cid\<close> sends at most
  \<open>2 - retryToGetLastTradeCount\<close> requests, all for \<open>cid\<close>, and logs in exactly once
  for each request rejected with \<^verbatim>\<open>AuthorizationRequired\<close>. The request is sent again
  after the login only when the rejection met the counter at 0; a rejection that meets
  the counter at 1 is followed by the login alone. The counter belongs to the module,
  not to the contract: over any sequence of watchdog firings, pushed updates and stops
  of the bot, the logins number at most what is left of the counter plus 2 for each
  stop (so at most 2 between two stops). Once the counter has reached 2, a poll changes
  nothing.
\<close>

theorem authorization_retries_bounded:
  "(\<exists>k. k \<le> 2 - retryToGetLastTradeCount s
        \<and> polled (getLastTradeResult mm br (Some cid) s) = polled s @ replicate k cid
        \<and> authorizeCalls (getLastTradeResult mm br (Some cid) s)
            = authorizeCalls s
              + length (filter (\<lambda>i. pollResult br i cid = AuthorizationRequired)
                          [length (polled s) ..< length (polled s) + k]))
   \<and> (retryToGetLastTradeCount s = 0 \<and> cid \<noteq> 0
        \<and> pollResult br (length (polled s)) cid = AuthorizationRequired \<longrightarrow>
        length (polled (getLastTradeResult mm br (Some cid) s)) = length (polled s) + 2)
   \<and> (retryToGetLastTradeCount u = 1 \<and> cid \<noteq> 0
        \<and> pollResult br (length (polled u)) cid = AuthorizationRequired \<longrightarrow>
        getLastTradeResult mm br (Some cid) u
          = authorize br (u\<lparr>polled := polled u @ [cid], retryToGetLastTradeCount := 2\<rparr>))
   \<and> authorizeCalls ((watchdogTick mm br ^^ n) s)
        \<le> authorizeCalls s + (2 - retryToGetLastTradeCount s)
   \<and> authorizeCalls (executar mm br evs s)
        \<le> authorizeCalls s + (2 - retryToGetLastTradeCount s)
           + 2 * length (filter (\<lambda>e. e = Stop) evs)
   \<and> (2 \<le> retryToGetLastTradeCount t \<longrightarrow>
        getLastTradeResult mm br c t = t \<and> watchdogTick mm br t = t)"
proof (intro conjI impI)
  from getLastTradeResult_polls [of mm br "Some cid" s]
  show "\<exists>k. k \<le> 2 - retryToGetLastTradeCount s
        \<and> polled (getLastTradeResult mm br (Some cid) s) = polled s @ replicate k cid
        \<and> authorizeCalls (getLastTradeResult mm br (Some cid) s)
            = authorizeCalls s
              + length (filter (\<lambda>i. pollResult br i cid = AuthorizationRequired)
                          [length (polled s) ..< length (polled s) + k])"
    by auto
next
  assume "retryToGetLastTradeCount s = 0 \<and> cid \<noteq> 0
        \<and> pollResult br (length (polled s)) cid = AuthorizationRequired"
  then show "length (polled (getLastTradeResult mm br (Some cid) s)) = length (polled s) + 2"
    by (simp add: getLastTradeResult_retry_issued)
next
  assume "retryToGetLastTradeCount u = 1 \<and> cid \<noteq> 0
        \<and> pollResult br (length (polled u)) cid = AuthorizationRequired"
  then show "getLastTradeResult mm br (Some cid) u
          = authorize br (u\<lparr>polled := polled u @ [cid], retryToGetLastTradeCount := 2\<rparr>)"
    by (intro getLastTradeResult_no_retry) simp_all
next
  have "authorizeCalls ((watchdogTick mm br ^^ n) s) \<le> potencial ((watchdogTick mm br ^^ n) s)"
    by (simp add: potencial_def)
  also have "\<dots> \<le> potencial s" by (rule watchdogTicks_potencial)
  also have "\<dots> \<le> authorizeCalls s + (2 - retryToGetLastTradeCount s)"
    by (simp add: potencial_def)
  finally show "authorizeCalls ((watchdogTick mm br ^^ n) s)
        \<le> authorizeCalls s + (2 - retryToGetLastTradeCount s)" .
next
  show "authorizeCalls (executar mm br evs s)
        \<le> authorizeCalls s + (2 - retryToGetLastTradeCount s)
           + 2 * length (filter (\<lambda>e. e = Stop) evs)"
    by (rule executar_logins)
next
  assume t: "2 \<le> retryToGetLastTradeCount t"
  then show "getLastTradeResult mm br c t = t"
    by (simp add: getLastTradeResult.simps split: option.split)
  from t show "watchdogTick mm br t = t"
    by (simp add: watchdogTick_def getLastTradeResult.simps split: option.split)
qed

theorem authorization_retries_bounded_witness:
  "retryToGetLastTradeCount placedState = 0 \<and> (7::nat) \<noteq> 0
   \<and> pollResult brokerUnauthorized (length (polled placedState)) 7 = AuthorizationRequired
   \<and> length (polled (getLastTradeResult fixedManager brokerUnauthorized (Some 7) placedState)) = 2
   \<and> retryToGetLastTradeCount (placedState\<lparr>retryToGetLastTradeCount := 1\<rparr>) = 1
   \<and> pollResult brokerUnauthorized
        (length (polled (placedState\<lparr>retryToGetLastTradeCount := 1\<rparr>))) 7
       = AuthorizationRequired
   \<and> polled (getLastTradeResult fixedManager brokerUnauthorized (Some 7)
        (placedState\<lparr>retryToGetLastTradeCount := 1\<rparr>)) = [7]
   \<and> authorizeCalls (getLastTradeResult fixedManager brokerUnauthorized (Some 7)
        (placedState\<lparr>retryToGetLastTradeCount := 1\<rparr>)) = 1
   \<and> authorizeCalls ((watchdogTick fixedManager brokerUnauthorized ^^ 5) placedState) \<le> 2
   \<and> authorizeCalls (executar fixedManager brokerUnauthorized [Watchdog, Stop, Watchdog]
        placedState) \<le> 4
   \<and> 2 \<le> retryToGetLastTradeCount exhaustedState
   \<and> getLastTradeResult fixedManager brokerUnauthorized (Some 7) exhaustedState = exhaustedState
   \<and> watchdogTick fixedManager brokerUnauthorized exhaustedState = exhaustedState"
proof -
  let ?u = "placedState\<lparr>retryToGetLastTradeCount := 1\<rparr>"
  have h1: "retryToGetLastTradeCount placedState = 0 \<and> (7::nat) \<noteq> 0
     \<and> pollResult brokerUnauthorized (length (polled placedState)) 7 = AuthorizationRequired"
    by (simp add: placedState_def brokerUnauthorized_def pollUnauthorized_def)
  have h1': "retryToGetLastTradeCount ?u = 1 \<and> (7::nat) \<noteq> 0
     \<and> pollResult brokerUnauthorized (length (polled ?u)) 7 = AuthorizationRequired"
    by (simp add: placedState_def brokerUnauthorized_def pollUnauthorized_def)
  have h2: "2 \<le> retryToGetLastTradeCount exhaustedState"
    by (simp add: exhaustedState_def placedState_def)
  have p0: "length (polled placedState) = 0" "authorizeCalls placedState = 0"
    "polled ?u = []" "authorizeCalls ?u = 0"
    by (simp_all add: placedState_def)
  note T = authorization_retries_bounded
    [where s = placedState and mm = fixedManager and br = brokerUnauthorized and cid = 7
       and n = 5 and t = exhaustedState and c = "Some 7" and u = ?u
       and evs = "[Watchdog, Stop, Watchdog]"]
  from T h1 have
    "length (polled (getLastTradeResult fixedManager brokerUnauthorized (Some 7) placedState))
       = length (polled placedState) + 2"
    by blast
  moreover from T h1' have
    "getLastTradeResult fixedManager brokerUnauthorized (Some 7) ?u
       = authorize brokerUnauthorized
           (?u\<lparr>polled := polled ?u @ [7], retryToGetLastTradeCount := 2\<rparr>)"
    by blast
  then have "polled (getLastTradeResult fixedManager brokerUnauthorized (Some 7) ?u) = [7]"
    and "authorizeCalls (getLastTradeResult fixedManager brokerUnauthorized (Some 7) ?u) = 1"
    using p0 by simp_all
  moreover from T have
    "authorizeCalls ((watchdogTick fixedManager brokerUnauthorized ^^ 5) placedState)
       \<le> authorizeCalls placedState + (2 - retryToGetLastTradeCount placedState)"
    by blast
  moreover from T have
    "authorizeCalls (executar fixedManager brokerUnauthorized [Watchdog, Stop, Watchdog]
        placedState)
       \<le> authorizeCalls placedState + (2 - retryToGetLastTradeCount placedState)
          + 2 * length (filter (\<lambda>e. e = Stop) [Watchdog, Stop, Watchdog])"
    by blast
  moreover from T h2 have
    "getLastTradeResult fixedManager brokerUnauthorized (Some 7) exhaustedState = exhaustedState
     \<and> watchdogTick fixedManager brokerUnauthorized exhaustedState = exhaustedState"
    by blast
  ultimately show ?thesis using h1 h1' h2 p0 by simp
qed

subsection \<open>The tick window\<close>

lemma atualizarTicks_bound:
  assumes "length (janela m) \<le> 50" and "dentroDoPedido d"
  shows "length (janela (atualizarTicks d m)) \<le> 50"
  using assms
  by (auto simp add: atualizarTicks_def janela_def dentroDoPedido_def Let_def
      split: tick_data.splits option.splits)

lemma aplicarMensagens_bound:
  assumes "list_all dentroDoPedido msgs" and "length (janela m) \<le> 50"
  shows "length (janela (aplicarMensagens msgs m)) \<le> 50"
  using assms unfolding aplicarMensagens_def
proof (induction msgs arbitrary: m)
  case Nil
  then show ?case by simp
next
  case (Cons d msgs)
  then show ?case by (simp add: atualizarTicks_bound)
qed

text \<open>
  C9 as stated fails: the window takes whatever a history message carries, here 51
  prices; and a tick that finds fewer than 50 prices in the window is not appended.
\<close>

theorem tick_window_counterexample:
  "length (janela (atualizarTicks (History (Some (replicate 51 100))) None)) = 51
   \<and> atualizarTicks (Tick (Some 4)) (Some [1, 2, 3]) = Some [1, 2, 3]"
  by (simp add: atualizarTicks_def janela_def)

text \<open>
  C9, as the code has it. A history message replaces the window with the prices it
  carries, however many. A tick that finds at least 50 prices in the window drops the
  oldest and appends the new price, so the length stays. Hence the length never exceeds
  50 as long as no history message carries more than the 50 prices asked for.
\<close>

theorem tick_window_updates:
  "atualizarTicks (History (Some prices)) ticksMap = Some prices
   \<and> (50 \<le> length (janela ticksMap) \<longrightarrow>
        atualizarTicks (Tick (Some p)) ticksMap = Some (tl (janela ticksMap) @ [p])
        \<and> length (janela (atualizarTicks (Tick (Some p)) ticksMap)) = length (janela ticksMap))
   \<and> (list_all dentroDoPedido msgs \<and> length (janela ticksMap) \<le> 50 \<longrightarrow>
        length (janela (aplicarMensagens msgs ticksMap)) \<le> 50)"
proof (intro conjI impI)
  show "atualizarTicks (History (Some prices)) ticksMap = Some prices"
    by (simp add: atualizarTicks_def)
next
  assume "50 \<le> length (janela ticksMap)"
  then show "atualizarTicks (Tick (Some p)) ticksMap = Some (tl (janela ticksMap) @ [p])"
    and "length (janela (atualizarTicks (Tick (Some p)) ticksMap)) = length (janela ticksMap)"
    by (simp_all add: atualizarTicks_def Let_def janela_def split: option.splits)
next
  assume "list_all dentroDoPedido msgs \<and> length (janela ticksMap) \<le> 50"
  then show "length (janela (aplicarMensagens msgs ticksMap)) \<le> 50"
    by (simp add: aplicarMensagens_bound)
qed

theorem tick_window_updates_witness:
  "50 \<le> length (janela (Some (map real [1 ..< 51])))
   \<and> atualizarTicks (Tick (Some 77)) (Some (map real [1 ..< 51]))
       = Some (tl (map real [1 ..< 51]) @ [77])
   \<and> length (janela (atualizarTicks (Tick (Some 77)) (Some (map real [1 ..< 51])))) = 50
   \<and> list_all dentroDoPedido [History (Some (map real [1 ..< 51])), Tick (Some 77), Tick None]
   \<and> length (janela (Some (map real [1 ..< 51]))) \<le> 50
   \<and> length (janela (aplicarMensagens
        [History (Some (map real [1 ..< 51])), Tick (Some 77), Tick None]
        (Some (map real [1 ..< 51])))) \<le> 50"
proof -
  have h1: "50 \<le> length (janela (Some (map real [1 ..< 51])))"
    and h1': "length (janela (Some (map real [1 ..< 51]))) = 50"
    and j: "janela (Some (map real [1 ..< 51])) = map real [1 ..< 51]"
    by (simp_all add: janela_def)
  have h2: "list_all dentroDoPedido
      [History (Some (map real [1 ..< 51])), Tick (Some 77), Tick None]"
    by (simp add: dentroDoPedido_def)
  note T = tick_window_updates [of "map real [1 ..< 51]" "Some (map real [1 ..< 51])" 77
      "[History (Some (map real [1 ..< 51])), Tick (Some 77), Tick None]"]
  from T h1 have
    "atualizarTicks (Tick (Some 77)) (Some (map real [1 ..< 51]))
       = Some (tl (janela (Some (map real [1 ..< 51]))) @ [77])"
    and "length (janela (atualizarTicks (Tick (Some 77)) (Some (map real [1 ..< 51]))))
       = length (janela (Some (map real [1 ..< 51])))"
    by blast+
  moreover from T h2 h1' have
    "length (janela (aplicarMensagens
        [History (Some (map real [1 ..< 51])), Tick (Some 77), Tick None]
        (Some (map real [1 ..< 51])))) \<le> 50"
    by simp
  ultimately show ?thesis using h1 h1' h2 unfolding j by simp
qed

end
